theory Spec2Isabelle
  imports Main
begin

section \<open>Strings\<close>

text \<open>
  A JavaScript string is modelled as the list of its code units, restricted to the
  code units below 256 (\<^typ>\<open>char\<close>); \<open>length\<close> is the \<open>.length\<close> of the source.
  The characters that cannot be written inside a literal are given by their code.
\<close>

abbreviation NUL :: char where "NUL \<equiv> CHR 0x00"
abbreviation TAB :: char where "TAB \<equiv> CHR 0x09"
abbreviation LF :: char where "LF \<equiv> CHR 0x0A"
abbreviation CR :: char where "CR \<equiv> CHR 0x0D"
abbreviation DQ :: char where "DQ \<equiv> CHR 0x22"
abbreviation DOLLAR :: char where "DOLLAR \<equiv> CHR 0x24"
abbreviation SQ :: char where "SQ \<equiv> CHR 0x27"
abbreviation BSL :: char where "BSL \<equiv> CHR 0x5C"
abbreviation BTICK :: char where "BTICK \<equiv> CHR 0x60"

text \<open>\<open>s.startsWith(p)\<close>.\<close>

fun startsWith :: "string \<Rightarrow> string \<Rightarrow> bool" where
  "startsWith s [] = True"
| "startsWith [] (p # ps) = False"
| "startsWith (c # cs) (p # ps) = (c = p \<and> startsWith cs ps)"

text \<open>\<open>s.includes(p)\<close>: \<open>p\<close> occurs in \<open>s\<close> at some position.\<close>

fun includes_str :: "string \<Rightarrow> string \<Rightarrow> bool" where
  "includes_str [] p = (p = [])"
| "includes_str (c # cs) p = (startsWith (c # cs) p \<or> includes_str cs p)"

text \<open>\<open>s.replace(/c/g, r)\<close> for a pattern that is one character.\<close>

definition replace_all :: "char \<Rightarrow> string \<Rightarrow> string \<Rightarrow> string" where
  "replace_all c r s = concat (map (\<lambda>x. if x = c then r else [x]) s)"

text \<open>\<open>/^[cls]+$/.test(s)\<close>: one or more characters of the class, then the end of the
  input (without the \<open>m\<close> flag, \<open>$\<close> matches at the very end only).\<close>

fun match_plus :: "(char \<Rightarrow> bool) \<Rightarrow> string \<Rightarrow> bool" where
  "match_plus P [] = False"
| "match_plus P (c # cs) = (P c \<and> (cs = [] \<or> match_plus P cs))"

text \<open>\<open>s.trim()\<close>: white space and line terminators are removed at both ends (of the
  code units below 256 these are 9 to 13, 32 and 160).\<close>

definition is_space :: "char \<Rightarrow> bool" where
  "is_space c = (let n = (of_char c :: nat) in (9 \<le> n \<and> n \<le> 13) \<or> n = 32 \<or> n = 160)"

definition trim :: "string \<Rightarrow> string" where
  "trim s = rev (dropWhile is_space (rev (dropWhile is_space s)))"

text \<open>\<open>s.toLowerCase()\<close> on code units below 256.\<close>

definition lower_char :: "char \<Rightarrow> char" where
  "lower_char c = (let n = (of_char c :: nat) in
     if (65 \<le> n \<and> n \<le> 90) \<or> (192 \<le> n \<and> n \<le> 214) \<or> (216 \<le> n \<and> n \<le> 222)
     then char_of (n + 32) else c)"

definition toLowerCase :: "string \<Rightarrow> string" where
  "toLowerCase s = map lower_char s"

text \<open>A number inside a template literal: its decimal digits.\<close>

function string_of_nat :: "nat \<Rightarrow> string" where
  "string_of_nat n =
     (if n < 10 then [char_of (48 + n)]
      else string_of_nat (n div 10) @ [char_of (48 + n mod 10)])"
  by pat_completeness auto
termination
  by (relation "measure id") auto

declare string_of_nat.simps [simp del]

text \<open>\<open>xs.join(sep)\<close>.\<close>

fun join_with :: "string \<Rightarrow> string list \<Rightarrow> string" where
  "join_with sep [] = []"
| "join_with sep [x] = x"
| "join_with sep (x # y # ys) = x @ sep @ join_with sep (y # ys)"

text \<open>\<open>path.join(a, b)\<close> for two segments that need no normalisation: the segments with
  the platform's separator between them.\<close>

definition path_join :: "bool \<Rightarrow> string \<Rightarrow> string \<Rightarrow> string" where
  "path_join isWindows a b = a @ [if isWindows then BSL else CHR ''/''] @ b"

text \<open>\<open>s.split(/[/\\]/).pop()\<close>: the part of \<open>s\<close> after the last slash or backslash.\<close>

definition last_segment :: "string \<Rightarrow> string" where
  "last_segment s = rev (takeWhile (\<lambda>c. c \<noteq> CHR ''/'' \<and> c \<noteq> BSL) (rev s))"

section \<open>Identifier validation\<close>

text \<open>The character class \<open>[a-zA-Z0-9._-]\<close>, as ranges of code units.\<close>

definition name_class :: "char \<Rightarrow> bool" where
  "name_class c = (let n = (of_char c :: nat) in
     (97 \<le> n \<and> n \<le> 122) \<or> (65 \<le> n \<and> n \<le> 90) \<or> (48 \<le> n \<and> n \<le> 57)
     \<or> c = CHR ''.'' \<or> c = CHR ''_'' \<or> c = CHR ''-'')"

text \<open>The character class \<open>[a-zA-Z0-9._/-]\<close>.\<close>

definition branch_class :: "char \<Rightarrow> bool" where
  "branch_class c = (let n = (of_char c :: nat) in
     (97 \<le> n \<and> n \<le> 122) \<or> (65 \<le> n \<and> n \<le> 90) \<or> (48 \<le> n \<and> n \<le> 57)
     \<or> c = CHR ''.'' \<or> c = CHR ''_'' \<or> c = CHR ''/'' \<or> c = CHR ''-'')"

definition isValidBranchName :: "string \<Rightarrow> bool" where
  "isValidBranchName branch =
     (match_plus branch_class branch \<and> length branch > 0 \<and> length branch \<le> 255)"

definition isValidSkillName :: "string \<Rightarrow> bool" where
  "isValidSkillName skillName =
     (match_plus name_class skillName \<and> length skillName > 0 \<and> length skillName \<le> 255)"

definition isValidRepoName :: "string \<Rightarrow> bool" where
  "isValidRepoName repoName =
     (if includes_str repoName ''..'' \<or> includes_str repoName ''/'' \<or> includes_str repoName [BSL]
      then False
      else match_plus name_class repoName \<and> length repoName > 0 \<and> length repoName \<le> 255)"

definition validProtocols :: "string list" where
  "validProtocols = [''http://'', ''https://'', ''git://'', ''git@'']"

definition dangerousChars :: "string list" where
  "dangerousChars = [[BTICK], ''$'', '';'', ''&'', ''|'', ''<'', ''>'', [LF], [CR]]"

definition isValidGitUrl :: "string \<Rightarrow> bool" where
  "isValidGitUrl url =
     (if \<not> list_ex (\<lambda>protocol. startsWith url protocol) validProtocols then False
      else if list_ex (\<lambda>ch. includes_str url ch) dangerousChars then False
      else length url > 0 \<and> length url \<le> 2000)"

text \<open>The spec's side of the name validator: the characters a name is drawn from.\<close>

definition name_chars :: "char set" where
  "name_chars = set (''abcdefghijklmnopqrstuvwxyz'' @ ''ABCDEFGHIJKLMNOPQRSTUVWXYZ''
     @ ''0123456789'' @ ''._-'')"

definition spec_isValidName :: "string \<Rightarrow> bool" where
  "spec_isValidName s = (1 \<le> length s \<and> length s \<le> 255 \<and> set s \<subseteq> name_chars)"

section \<open>Escaping for the command line\<close>

definition escapeGitPath :: "string \<Rightarrow> string" where
  "escapeGitPath path =
     replace_all NUL [] (replace_all TAB '' '' (replace_all CR [] (replace_all LF []
       (replace_all DQ [BSL, DQ] (replace_all BSL [BSL, BSL] path)))))"

definition escapeCommitMessage :: "string \<Rightarrow> string" where
  "escapeCommitMessage message =
     replace_all NUL [] (replace_all CR [] (replace_all LF '' ''
       (replace_all BTICK [BSL, BTICK] (replace_all DOLLAR [BSL, DOLLAR]
         (replace_all DQ [BSL, DQ] (replace_all BSL [BSL, BSL] message))))))"

text \<open>
  The quoting context the escaped text is placed in: the inside of a double-quoted word
  of the POSIX shell that \<open>execSync\<close> hands the command line to. There a backslash
  escapes the next character when that is a dollar sign, a backquote, a double quote, a
  backslash or a newline, and is an ordinary character before anything else; a double
  quote that is not escaped ends the word; a backquote that is not escaped starts a
  command substitution. \<open>dq_scan active s\<close> reads \<open>s\<close> as the shell does and holds when
  no character of \<open>active\<close> is met unescaped and no backslash is left at the very end
  (where it would escape the closing quote).
\<close>

definition dq_escapable :: "char \<Rightarrow> bool" where
  "dq_escapable d = (d = DOLLAR \<or> d = BTICK \<or> d = DQ \<or> d = BSL \<or> d = LF)"

fun dq_scan :: "(char \<Rightarrow> bool) \<Rightarrow> string \<Rightarrow> bool" where
  "dq_scan active [] = True"
| "dq_scan active (c # cs) =
     (if c = BSL then
        (case cs of
           [] \<Rightarrow> False
         | d # ds \<Rightarrow> if dq_escapable d then dq_scan active ds else dq_scan active (d # ds))
      else \<not> active c \<and> dq_scan active cs)"



section \<open>The remote directory: loading the configuration\<close>

text \<open>
  The value \<open>JSON.parse\<close> returns. \<open>JSON.parse\<close> itself is a parameter of the model: it
  gives the parsed value, or nothing where the source raises a \<open>SyntaxError\<close>. Of a
  number only its being zero is ever looked at.
\<close>

datatype json = JNull | JBool bool | JNum int | JStr string | JArr "json list"
  | JObj "(string \<times> json) list"

text \<open>The configuration file: absent, present but not readable, or its content.\<close>

datatype file_state = Missing | Unreadable | Content string

datatype js_error = IOError | SyntaxError | TypeError | SystemError

text \<open>
  \<open>getConfigPath()\<close>: the file \<open>repositories.json\<close> in the directory \<open>.openskills\<close> of the
  home directory. The answer of \<open>os.homedir()\<close> is a parameter of the model: the home
  directory, or the error the call raises when the home directory cannot be determined.
\<close>

definition getConfigPath :: "bool \<Rightarrow> js_error + string \<Rightarrow> js_error + string" where
  "getConfigPath isWindows homedir =
     (case homedir of
        Inl e \<Rightarrow> Inl e
      | Inr h \<Rightarrow> Inr (path_join isWindows (path_join isWindows h ''.openskills'')
                       ''repositories.json''))"

definition existsSync :: "file_state \<Rightarrow> bool" where
  "existsSync f = (f \<noteq> Missing)"

definition readFileSync :: "file_state \<Rightarrow> js_error + string" where
  "readFileSync f = (case f of Content c \<Rightarrow> Inr c | _ \<Rightarrow> Inl IOError)"

definition JSON_parse :: "(string \<Rightarrow> json option) \<Rightarrow> string \<Rightarrow> js_error + json" where
  "JSON_parse parse content = (case parse content of None \<Rightarrow> Inl SyntaxError | Some v \<Rightarrow> Inr v)"

text \<open>\<open>v.key\<close>: raises on \<open>null\<close>, is \<open>undefined\<close> (here \<open>None\<close>) on a value that has no
  such property.\<close>

definition get_property :: "json \<Rightarrow> string \<Rightarrow> js_error + json option" where
  "get_property v key =
     (case v of JNull \<Rightarrow> Inl TypeError | JObj kvs \<Rightarrow> Inr (map_of kvs key) | _ \<Rightarrow> Inr None)"

fun truthy :: "json option \<Rightarrow> bool" where
  "truthy None = False"
| "truthy (Some JNull) = False"
| "truthy (Some (JBool b)) = b"
| "truthy (Some (JNum n)) = (n \<noteq> 0)"
| "truthy (Some (JStr s)) = (s \<noteq> [])"
| "truthy (Some (JArr xs)) = True"
| "truthy (Some (JObj kvs)) = True"

fun isArray :: "json option \<Rightarrow> bool" where
  "isArray (Some (JArr xs)) = True"
| "isArray _ = False"

fun array_items :: "json option \<Rightarrow> json list" where
  "array_items (Some (JArr xs)) = xs"
| "array_items _ = []"

text \<open>The body of the \<open>try\<close> block of \<open>loadRepositories\<close>, for the file in the state \<open>f\<close>:
  each call that can raise returns a sum, and the first error ends the block.\<close>

definition load_body :: "(string \<Rightarrow> json option) \<Rightarrow> file_state \<Rightarrow> js_error + json list" where
  "load_body parse f =
     (case readFileSync f of Inl e \<Rightarrow> Inl e | Inr content \<Rightarrow>
      (case JSON_parse parse content of Inl e \<Rightarrow> Inl e | Inr config \<Rightarrow>
       (case get_property config ''repositories'' of Inl e \<Rightarrow> Inl e | Inr repositories \<Rightarrow>
          if \<not> truthy repositories \<or> \<not> isArray repositories then Inr []
          else Inr (array_items repositories))))"

text \<open>
  \<open>loadRepositories\<close>: the path is computed before the \<open>try\<close> block, so an error of
  \<open>getConfigPath\<close> leaves the function; an error inside the block is caught and gives the
  empty list. \<open>fs\<close> tells the state of the file at a path.
\<close>

definition loadRepositories ::
  "(string \<Rightarrow> json option) \<Rightarrow> bool \<Rightarrow> js_error + string \<Rightarrow> (string \<Rightarrow> file_state)
     \<Rightarrow> js_error + json list" where
  "loadRepositories parse isWindows homedir fs =
     (case getConfigPath isWindows homedir of
        Inl e \<Rightarrow> Inl e
      | Inr configPath \<Rightarrow>
          if \<not> existsSync (fs configPath) then Inr []
          else (case load_body parse (fs configPath) of Inl e \<Rightarrow> Inr [] | Inr rs \<Rightarrow> Inr rs))"

text \<open>The stored repository array of a parsed configuration, when it has one: the value
  of the field \<open>repositories\<close> of an object, when that value is an array.\<close>

definition stored_repositories :: "json \<Rightarrow> json list option" where
  "stored_repositories config =
     (case config of
        JObj kvs \<Rightarrow> (case map_of kvs ''repositories'' of Some (JArr xs) \<Rightarrow> Some xs | _ \<Rightarrow> None)
      | _ \<Rightarrow> None)"

section \<open>The recursive copy\<close>

definition isGitRelatedFile :: "string \<Rightarrow> bool" where
  "isGitRelatedFile name = (name = ''.git'' \<or> name = ''.gitignore'' \<or> name = ''.gitattributes'')"

text \<open>
  The source tree as \<open>readdirSync\<close> and \<open>statSync\<close> show it. A regular file carries its
  content, or nothing when \<open>copyFileSync\<close> raises on it. A directory carries whether
  \<open>mkdirSync\<close> of its copy succeeds, whether \<open>readdirSync\<close> of it succeeds, and its
  entries in the order they are listed. A symbolic link is given by what \<open>statSync\<close>
  finds behind it: a file, a directory (with its entries as they are seen through the
  link), nothing (a broken link), an error, or something that is neither file nor
  directory. \<open>Other\<close> is an entry that is none of directory, file and symbolic link.
\<close>

datatype fsnode =
    File "string option"
  | Dir bool bool "(string \<times> fsnode) list"
  | LinkFile "string option"
  | LinkDir bool bool "(string \<times> fsnode) list"
  | LinkBroken
  | LinkError
  | LinkOther
  | Other

text \<open>What can stand in the destination.\<close>

datatype dnode = DFile string | DDir "(string \<times> dnode) list" | DLink string

text \<open>
  \<open>copyRecursive\<close> into a fresh directory: the entries it has created there, and whether
  it has raised. \<open>copyEntries\<close> is the \<open>for\<close> loop and \<open>copyEntry\<close> its body after the
  test of the name.
\<close>

fun copyRecursive :: "bool \<Rightarrow> (string \<times> fsnode) list \<Rightarrow> (string \<times> dnode) list \<times> bool"
  and copyEntries :: "(string \<times> fsnode) list \<Rightarrow> (string \<times> dnode) list \<times> bool"
  and copyEntry :: "string \<Rightarrow> fsnode \<Rightarrow> (string \<times> dnode) list \<times> bool"
where
  "copyRecursive readable entries = (if \<not> readable then ([], True) else copyEntries entries)"
| "copyEntries [] = ([], False)"
| "copyEntries ((name, node) # rest) =
     (if isGitRelatedFile name then copyEntries rest
      else (case copyEntry name node of
              (made, True) \<Rightarrow> (made, True)
            | (made, False) \<Rightarrow>
                (case copyEntries rest of (further, raised) \<Rightarrow> (made @ further, raised))))"
| "copyEntry name (Dir mk rd sub) =
     (if \<not> mk then ([], True)
      else (case copyRecursive rd sub of (d, raised) \<Rightarrow> ([(name, DDir d)], raised)))"
| "copyEntry name (File None) = ([], True)"
| "copyEntry name (File (Some c)) = ([(name, DFile c)], False)"
| "copyEntry name (LinkFile None) = ([], False)"
| "copyEntry name (LinkFile (Some c)) = ([(name, DFile c)], False)"
| "copyEntry name (LinkDir mk rd sub) =
     (if \<not> mk then ([], False)
      else (case copyRecursive rd sub of (d, raised) \<Rightarrow> ([(name, DDir d)], False)))"
| "copyEntry name LinkBroken = ([], False)"
| "copyEntry name LinkError = ([], False)"
| "copyEntry name LinkOther = ([], False)"
| "copyEntry name Other = ([], False)"

text \<open>No entry of the destination, at any depth, has a name of the metadata files.\<close>

fun git_free :: "(string \<times> dnode) list \<Rightarrow> bool"
  and git_free_node :: "dnode \<Rightarrow> bool"
where
  "git_free [] = True"
| "git_free ((name, d) # rest) = (\<not> isGitRelatedFile name \<and> git_free_node d \<and> git_free rest)"
| "git_free_node (DDir sub) = git_free sub"
| "git_free_node (DFile c) = True"
| "git_free_node (DLink t) = True"

text \<open>No entry of the destination, at any depth, is a symbolic link.\<close>

fun link_free :: "(string \<times> dnode) list \<Rightarrow> bool"
  and link_free_node :: "dnode \<Rightarrow> bool"
where
  "link_free [] = True"
| "link_free ((name, d) # rest) = (link_free_node d \<and> link_free rest)"
| "link_free_node (DDir sub) = link_free sub"
| "link_free_node (DFile c) = True"
| "link_free_node (DLink t) = False"

text \<open>
  The copy as the specification words it: the tree without the entries named after the
  metadata files, at every level; a file, and a link to a file, as a file of the same
  content; a directory, and a link to a directory, as a directory holding the copy of
  the entries; nothing for a link that is broken or cannot be followed, and for what is
  neither file nor directory.
\<close>

fun spec_copy :: "(string \<times> fsnode) list \<Rightarrow> (string \<times> dnode) list"
  and spec_copy_node :: "fsnode \<Rightarrow> dnode option"
where
  "spec_copy [] = []"
| "spec_copy ((name, node) # rest) =
     (if isGitRelatedFile name then spec_copy rest
      else (case spec_copy_node node of
              None \<Rightarrow> spec_copy rest
            | Some d \<Rightarrow> (name, d) # spec_copy rest))"
| "spec_copy_node (File c) = map_option DFile c"
| "spec_copy_node (Dir mk rd sub) = Some (DDir (spec_copy sub))"
| "spec_copy_node (LinkFile c) = map_option DFile c"
| "spec_copy_node (LinkDir mk rd sub) = Some (DDir (spec_copy sub))"
| "spec_copy_node LinkBroken = None"
| "spec_copy_node LinkError = None"
| "spec_copy_node LinkOther = None"
| "spec_copy_node Other = None"

text \<open>No call of the file system fails on the tree: every file can be copied, every
  directory made and listed. Links that are broken or cannot be followed may occur.\<close>

fun io_ok :: "(string \<times> fsnode) list \<Rightarrow> bool"
  and io_ok_node :: "fsnode \<Rightarrow> bool"
where
  "io_ok [] = True"
| "io_ok ((name, node) # rest) = (io_ok_node node \<and> io_ok rest)"
| "io_ok_node (File c) = (c \<noteq> None)"
| "io_ok_node (Dir mk rd sub) = (mk \<and> rd \<and> io_ok sub)"
| "io_ok_node (LinkFile c) = (c \<noteq> None)"
| "io_ok_node (LinkDir mk rd sub) = (mk \<and> rd \<and> io_ok sub)"
| "io_ok_node LinkBroken = True"
| "io_ok_node LinkError = True"
| "io_ok_node LinkOther = True"
| "io_ok_node Other = True"

section \<open>Effects\<close>

text \<open>
  What a run does to the world outside, in the order it does it: the command lines
  given to \<open>execSync\<close>, the lines written to the console and the spinner (the text
  without its colours and the check mark), the prompts shown, and the calls of the file
  system. A recursive copy is one event, with the source, the destination and the
  entries it has created there.
\<close>

datatype event =
    Exec string
  | Log string
  | Spin string
  | Confirm string
  | ExistsSync string bool
  | RmSync string
  | MkdirSync string
  | ReadFile string
  | WriteFile string string
  | Readdir string
  | CopyTree string string "(string \<times> dnode) list"
  | Sleep nat

section \<open>Removing a nested metadata directory, with retries\<close>

definition MAX_RETRY_ATTEMPTS :: nat where "MAX_RETRY_ATTEMPTS = 10"

definition FILE_SYSTEM_WAIT_MS :: nat where "FILE_SYSTEM_WAIT_MS = 300"

definition getDeleteCommand :: "bool \<Rightarrow> string \<Rightarrow> string" where
  "getDeleteCommand isWindows path =
     (if isWindows then ''Remove-Item -Recurse -Force '' @ [DQ] @ path @ [DQ]
      else ''rm -rf '' @ [DQ] @ path @ [DQ])"

text \<open>
  What the file system answers during one call of \<open>removeGitDirectory\<close>: whether the path
  exists on entry; for the attempt \<open>i\<close>, whether \<open>rmSync\<close> raises, and when it returns,
  whether the path still exists after the wait; and whether the path exists at the check
  after the loop.
\<close>

datatype attempt = RmRaises | RmReturns bool

record rm_script =
  exists_at_entry :: bool
  attempt_at :: "nat \<Rightarrow> attempt"
  exists_at_end :: bool

text \<open>The \<open>for\<close> loop from the index \<open>i\<close> on: its effects and the final value of
  \<open>removed\<close>.\<close>

function retry_loop :: "(nat \<Rightarrow> attempt) \<Rightarrow> string \<Rightarrow> nat \<Rightarrow> event list \<times> bool" where
  "retry_loop att gitPath i =
     (if i < MAX_RETRY_ATTEMPTS then
        (case att i of
           RmReturns still \<Rightarrow>
             if \<not> still
             then ([RmSync gitPath, Sleep FILE_SYSTEM_WAIT_MS, ExistsSync gitPath False], True)
             else (let (tr, removed) = retry_loop att gitPath (i + 1)
                   in ([RmSync gitPath, Sleep FILE_SYSTEM_WAIT_MS, ExistsSync gitPath True] @ tr,
                       removed))
         | RmRaises \<Rightarrow>
             (let (tr, removed) = retry_loop att gitPath (i + 1)
              in ([RmSync gitPath, Sleep FILE_SYSTEM_WAIT_MS] @ tr, removed)))
      else ([], False))"
  by pat_completeness auto
termination
  by (relation "measure (\<lambda>(att, gitPath, i). MAX_RETRY_ATTEMPTS - i)") auto

declare retry_loop.simps [simp del]

definition removeGitDirectory ::
  "bool \<Rightarrow> rm_script \<Rightarrow> string \<Rightarrow> string \<Rightarrow> event list \<times> bool" where
  "removeGitDirectory isWindows sc gitPath ctx =
     (if \<not> exists_at_entry sc then ([ExistsSync gitPath False], True)
      else
        (let (tr, removed) = retry_loop (attempt_at sc) gitPath 0;
             pre = [ExistsSync gitPath True,
                    Log (''Warning: Found .git directory in '' @ ctx
                         @ '', removing to prevent submodule issue...'')] @ tr
         in if \<not> removed \<and> exists_at_end sc then
              (pre @ [ExistsSync gitPath True,
                 Log ([LF] @ ''Error: .git directory still exists in '' @ ctx),
                 Log (''Path: '' @ gitPath),
                 Log ''Git will treat this as a submodule, causing upload to fail.'',
                 Log ([LF] @ ''Please manually delete the .git directory:''),
                 Log (''  '' @ getDeleteCommand isWindows gitPath),
                 Log ([LF] @ ''Then try uploading again.'')], False)
            else if removed then (pre @ [Log ''Removed .git directory''], True)
            else (pre @ [ExistsSync gitPath False], False)))"

definition ensureGitDirectoryRemoved ::
  "bool \<Rightarrow> rm_script \<Rightarrow> string \<Rightarrow> string \<Rightarrow> event list \<times> bool" where
  "ensureGitDirectoryRemoved isWindows sc skillDir ctx =
     removeGitDirectory isWindows sc (path_join isWindows skillDir ''.git'') ctx"







section \<open>Runs of the publish pipeline\<close>

text \<open>
  The error object an external command or a call of the file system raises: the captured
  diagnostic texts of the command, where there are any, and the message. (Every error
  object met here passes the test \<open>isExecError\<close> of the source, and its \<open>code\<close> is never
  the number 0, so the tests of the source on the two are left out.)
\<close>

record js_err =
  err_stderr :: "string option"
  err_stdout :: "string option"
  err_message :: "string option"

datatype exec_result = ExecOk string | ExecFail js_err

text \<open>
  How a piece of the pipeline can end other than by going on: the process exits with a
  status (\<open>process.exit\<close>), an exception is in flight, or the function \<open>uploadToRepository\<close>
  returns early. A run is the trace of its effects with the way it ended or the value it
  went on with.
\<close>

datatype stop = Exit nat | Raise js_err | Return

type_synonym 'a run = "event list \<times> (stop + 'a)"

definition ret :: "'a \<Rightarrow> 'a run" where
  "ret x = ([], Inr x)"

definition emit :: "event list \<Rightarrow> unit run" where
  "emit es = (es, Inr ())"

definition stop_with :: "stop \<Rightarrow> 'a run" where
  "stop_with s = ([], Inl s)"

definition bnd :: "'a run \<Rightarrow> ('a \<Rightarrow> 'b run) \<Rightarrow> 'b run" where
  "bnd m k =
     (case m of
        (tr, Inl s) \<Rightarrow> (tr, Inl s)
      | (tr, Inr x) \<Rightarrow> (case k x of (tr', r) \<Rightarrow> (tr @ tr', r)))"

definition thn :: "unit run \<Rightarrow> 'b run \<Rightarrow> 'b run" where
  "thn m k = bnd m (\<lambda>u. k)"

text \<open>\<open>try { m } catch (e) { h e }\<close>: only an exception is caught; an exit and an early
  return pass through.\<close>

definition try_catch :: "'a run \<Rightarrow> (js_err \<Rightarrow> 'a run) \<Rightarrow> 'a run" where
  "try_catch m h =
     (case m of
        (tr, Inl (Raise e)) \<Rightarrow> (case h e of (tr', r) \<Rightarrow> (tr @ tr', r))
      | _ \<Rightarrow> m)"

text \<open>The calls to the outside, each with the answer the environment gives.\<close>

definition exec :: "exec_result \<Rightarrow> string \<Rightarrow> string run" where
  "exec r cmd = ([Exec cmd], case r of ExecOk out \<Rightarrow> Inr out | ExecFail e \<Rightarrow> Inl (Raise e))"

definition exec_unit :: "exec_result \<Rightarrow> string \<Rightarrow> unit run" where
  "exec_unit r cmd = bnd (exec r cmd) (\<lambda>out. ret ())"

definition fs_call :: "event \<Rightarrow> js_err option \<Rightarrow> unit run" where
  "fs_call ev r = ([ev], case r of None \<Rightarrow> Inr () | Some e \<Rightarrow> Inl (Raise e))"

definition read_file :: "string \<Rightarrow> js_err + string \<Rightarrow> string run" where
  "read_file path r = ([ReadFile path], case r of Inl e \<Rightarrow> Inl (Raise e) | Inr c \<Rightarrow> Inr c)"

definition read_dir :: "string \<Rightarrow> js_err + string list \<Rightarrow> string list run" where
  "read_dir path r = ([Readdir path], case r of Inl e \<Rightarrow> Inl (Raise e) | Inr c \<Rightarrow> Inr c)"

definition probe :: "string \<Rightarrow> bool \<Rightarrow> bool run" where
  "probe path b = ([ExistsSync path b], Inr b)"

definition lift :: "event list \<times> 'a \<Rightarrow> 'a run" where
  "lift p = (fst p, Inr (snd p))"

text \<open>\<open>a || b\<close> on texts that may be missing: the first that is there and not empty.\<close>

definition or_else :: "string option \<Rightarrow> string \<Rightarrow> string" where
  "or_else a b = (case a of Some s \<Rightarrow> if s \<noteq> [] then s else b | None \<Rightarrow> b)"

text \<open>\<open>error.stderr?.toString() || error.stdout?.toString() || ''\<close>.\<close>

definition err_text :: "js_err \<Rightarrow> string" where
  "err_text e = or_else (err_stderr e) (or_else (err_stdout e) [])"

text \<open>\<open>error.message || 'Unknown error'\<close>.\<close>

definition msg_or_unknown :: "js_err \<Rightarrow> string" where
  "msg_or_unknown e = or_else (err_message e) ''Unknown error''"

text \<open>The lines printed for a captured text: one that is a \<open>Buffer\<close> (a command run without
  an encoding) counts as present even when empty, one that is a string does not.\<close>

definition dump_buffer :: "string option \<Rightarrow> event list" where
  "dump_buffer t = (case t of Some s \<Rightarrow> [Log (trim s)] | None \<Rightarrow> [])"

definition dump_string :: "string option \<Rightarrow> event list" where
  "dump_string t = (case t of Some s \<Rightarrow> if s \<noteq> [] then [Log (trim s)] else [] | None \<Rightarrow> [])"

definition GIT_SUBMODULE_MODE :: string where
  "GIT_SUBMODULE_MODE = ''160000''"

definition DEFAULT_BRANCHES :: "string list" where
  "DEFAULT_BRANCHES = [''main'', ''master'']"

definition sanitizeBranchName :: "string \<Rightarrow> string run" where
  "sanitizeBranchName branch =
     (if isValidBranchName branch then ret branch
      else thn (emit [Log (''Warning: Invalid branch name '' @ [SQ] @ branch @ [SQ]
                  @ '', using '' @ [SQ] @ ''main'' @ [SQ] @ '' as fallback'')])
               (ret ''main''))"

definition getCurrentBranch :: "exec_result \<Rightarrow> string run" where
  "getCurrentBranch r =
     try_catch
       (bnd (exec r ''git rev-parse --abbrev-ref HEAD'') (\<lambda>branch. sanitizeBranchName (trim branch)))
       (\<lambda>e. ret ''main'')"

section \<open>Cleaning up after a submodule\<close>

text \<open>
  What the file system and the version-control process answer to \<open>cleanupSubmodule\<close>.
  The two regular-expression replacements that cut the section of the bundle out of
  \<open>.gitmodules\<close> and out of \<open>.git/config\<close> are parameters: each gives, for the bundle name
  and the content read, the content left.
\<close>

record cleanup_env =
  gitmodules_exists :: bool
  gitmodules_read :: "js_err + string"
  gitmodules_strip :: "string \<Rightarrow> string \<Rightarrow> string"
  gitmodules_write :: "js_err option"
  gitmodules_add :: exec_result
  gitmodules_unlink :: "js_err option"
  gitmodules_git_rm :: exec_result
  config_exists :: bool
  config_read :: "js_err + string"
  config_strip :: "string \<Rightarrow> string \<Rightarrow> string"
  config_write :: "js_err option"
  module_dir_exists :: bool
  module_dir_rm :: "js_err option"
  modules_skills_exists :: bool
  modules_skills_list :: "js_err + string list"
  modules_skills_rm :: "js_err option"

definition cleanup_gitmodules :: "cleanup_env \<Rightarrow> string \<Rightarrow> string \<Rightarrow> unit run" where
  "cleanup_gitmodules ce gitmodulesPath skillName =
     bnd (probe gitmodulesPath (gitmodules_exists ce)) (\<lambda>ex.
       if \<not> ex then ret ()
       else bnd (read_file gitmodulesPath (gitmodules_read ce)) (\<lambda>content.
         let gitmodulesContent = trim (gitmodules_strip ce skillName content) in
         if gitmodulesContent \<noteq> [] then
           thn (fs_call (WriteFile gitmodulesPath (gitmodulesContent @ [LF])) (gitmodules_write ce))
               (exec_unit (gitmodules_add ce) ''git add .gitmodules'')
         else
           thn (fs_call (RmSync gitmodulesPath) (gitmodules_unlink ce))
               (try_catch (exec_unit (gitmodules_git_rm ce) ''git rm .gitmodules'')
                  (\<lambda>e. let errorMsg = or_else (err_stderr e) [] in
                     if \<not> includes_str errorMsg ''did not match any files''
                     then emit [Log (''Note: Could not remove .gitmodules from Git index: ''
                                  @ trim errorMsg)]
                     else ret ()))))"

definition cleanup_config :: "cleanup_env \<Rightarrow> string \<Rightarrow> string \<Rightarrow> unit run" where
  "cleanup_config ce gitConfigPath skillName =
     try_catch
       (bnd (probe gitConfigPath (config_exists ce)) (\<lambda>ex.
          if \<not> ex then ret ()
          else bnd (read_file gitConfigPath (config_read ce)) (\<lambda>content.
            fs_call (WriteFile gitConfigPath (trim (config_strip ce skillName content) @ [LF]))
              (config_write ce))))
       (\<lambda>e. emit [Log (''Note: Could not clean up .git/config: '' @ msg_or_unknown e)])"

definition cleanup_modules :: "cleanup_env \<Rightarrow> string \<Rightarrow> string \<Rightarrow> unit run" where
  "cleanup_modules ce gitModulesPath gitModulesSkillsPath =
     thn (bnd (probe gitModulesPath (module_dir_exists ce)) (\<lambda>ex.
            if ex then fs_call (RmSync gitModulesPath) (module_dir_rm ce) else ret ()))
         (bnd (probe gitModulesSkillsPath (modules_skills_exists ce)) (\<lambda>ex.
            if \<not> ex then ret ()
            else try_catch
              (bnd (read_dir gitModulesSkillsPath (modules_skills_list ce)) (\<lambda>entries.
                 if length entries = 0
                 then fs_call (RmSync gitModulesSkillsPath) (modules_skills_rm ce)
                 else ret ()))
              (\<lambda>e. emit [Log (''Note: Could not check/remove empty .git/modules/skills directory: ''
                           @ msg_or_unknown e)])))"

definition cleanupSubmodule :: "bool \<Rightarrow> cleanup_env \<Rightarrow> string \<Rightarrow> string \<Rightarrow> unit run" where
  "cleanupSubmodule isWindows ce localRepoDir skillName =
     (let gitDir = path_join isWindows localRepoDir ''.git'';
          gitModulesSkillsPath =
            path_join isWindows (path_join isWindows gitDir ''modules'') ''skills''
      in try_catch
           (thn (cleanup_gitmodules ce (path_join isWindows localRepoDir ''.gitmodules'') skillName)
           (thn (cleanup_config ce (path_join isWindows gitDir ''config'') skillName)
                (cleanup_modules ce (path_join isWindows gitModulesSkillsPath skillName)
                   gitModulesSkillsPath)))
           (\<lambda>e. emit [Log (''Warning: Some submodule cleanup operations failed: ''
                        @ msg_or_unknown e)]))"

section \<open>The publish pipeline: the environment\<close>

record skill =
  skill_name :: string
  skill_baseDir :: string

record UploadOptions =
  opt_message :: "string option"
  opt_yes :: bool

text \<open>How the overwrite prompt ends: accepted, declined, interrupted by the user (the
  prompt raises \<open>ExitPromptError\<close>), or another exception.\<close>

datatype reply = Accepted | Declined | Interrupted | PromptFailed js_err

text \<open>
  What the outside answers while one bundle is handled, each field at the place of the
  source where the question is asked: in the per-bundle loop (from \<open>target_exists\<close> to
  \<open>skill_md_exists\<close>), in the loop before staging (\<open>git_before_stage\<close>) and in the staging
  loop (the last three).
\<close>

record skill_env =
  target_exists :: bool
  confirm_reply :: reply
  target_still_exists :: bool
  nested_git :: bool
  ls_stage :: exec_result
  git_rm_cached :: exec_result
  rm_target :: "js_err option"
  nested_git_left :: bool
  rm_nested_git :: "js_err option"
  cleanup :: cleanup_env
  status_checkpoint :: exec_result
  commit_checkpoint :: exec_result
  mkdir_target :: "js_err option"
  source_readable :: bool
  source_entries :: "(string \<times> fsnode) list"
  copy_error :: js_err
  git_after_copy :: rm_script
  skill_md_exists :: bool
  git_before_stage :: rm_script
  git_before_add :: rm_script
  add_path :: exec_result
  add_dir :: exec_result

text \<open>What the outside answers to the rest of \<open>uploadToRepository\<close> and to
  \<open>pushToRemote\<close>; \<open>per_skill i\<close> is for the bundle at the index \<open>i\<close> of the list, and
  \<open>git_pull j\<close>, \<open>git_push j\<close> are for the candidate branch at the index \<open>j\<close>.\<close>

record env =
  home :: string
  is_win32 :: bool
  repo_exists :: bool
  mkdir_repos :: "js_err option"
  git_clone :: exec_result
  git_fetch :: exec_result
  rev_parse_pull :: exec_result
  git_pull :: "nat \<Rightarrow> exec_result"
  mkdir_skills :: "js_err option"
  per_skill :: "nat \<Rightarrow> skill_env"
  git_add_all :: exec_result
  git_status :: exec_result
  git_ls_files :: exec_result
  git_commit :: exec_result
  remote_url :: exec_result
  rev_parse_push :: exec_result
  git_push :: "nat \<Rightarrow> exec_result"

section \<open>The publish pipeline: one bundle\<close>

definition confirm_overwrite :: "skill_env \<Rightarrow> string \<Rightarrow> bool run" where
  "confirm_overwrite se skillName =
     thn (emit [Confirm (''Skill '' @ [SQ] @ skillName @ [SQ]
                 @ '' already exists in repository. Overwrite?'')])
       (case confirm_reply se of
          Accepted \<Rightarrow> ret True
        | Declined \<Rightarrow> thn (emit [Log (''Skipped: '' @ skillName)]) (ret False)
        | Interrupted \<Rightarrow> thn (emit [Log ([LF] @ ''Cancelled by user'')]) (stop_with (Exit 0))
        | PromptFailed e \<Rightarrow> stop_with (Raise e))"

text \<open>The note of a \<open>catch\<close> block that keeps silent about a path the index does not
  know.\<close>

definition note_unless_unknown :: "string \<Rightarrow> js_err \<Rightarrow> unit run" where
  "note_unless_unknown what e =
     (let errorMsg = or_else (err_stderr e) [] in
      if \<not> includes_str errorMsg ''did not match any files''
         \<and> \<not> includes_str errorMsg ''No such file''
      then emit [Log (what @ trim errorMsg)] else ret ())"

text \<open>Lines 582 to 648: the target exists and is removed, from the index and from the
  file system. The value is whether it was a submodule (\<open>isSubmodule ||
  isRegisteredSubmodule\<close>).\<close>

definition remove_existing ::
  "bool \<Rightarrow> skill_env \<Rightarrow> string \<Rightarrow> string \<Rightarrow> string \<Rightarrow> bool run" where
  "remove_existing win se localRepoDir targetSkillDir skillName =
     (let existingGitPath = path_join win targetSkillDir ''.git'';
          skillPath = escapeGitPath (path_join win ''skills'' skillName)
      in
      bnd (probe existingGitPath (nested_git se)) (\<lambda>isSubmodule.
      bnd (try_catch
             (bnd (exec (ls_stage se) (''git ls-files --stage '' @ [DQ] @ skillPath @ [DQ]))
                (\<lambda>lsOutput. ret (includes_str lsOutput GIT_SUBMODULE_MODE)))
             (\<lambda>e. thn (note_unless_unknown ''Note: Could not check submodule status: '' e)
                      (ret False)))
        (\<lambda>isRegisteredSubmodule.
      thn (try_catch
             (exec_unit (git_rm_cached se)
                (if isSubmodule \<or> isRegisteredSubmodule
                 then ''git rm --cached --force '' @ [DQ] @ skillPath @ [DQ]
                 else ''git rm -r --cached '' @ [DQ] @ skillPath @ [DQ]))
             (\<lambda>e. note_unless_unknown ''Note: Could not remove from Git index: '' e))
      (thn (fs_call (RmSync targetSkillDir) (rm_target se))
      (thn (bnd (probe existingGitPath (nested_git_left se)) (\<lambda>left.
              if left then fs_call (RmSync existingGitPath) (rm_nested_git se) else ret ()))
      (thn (if isSubmodule \<or> isRegisteredSubmodule
            then cleanupSubmodule win (cleanup se) localRepoDir skillName else ret ())
           (ret (isSubmodule \<or> isRegisteredSubmodule))))))))"

text \<open>Lines 652 to 674: the removal of a submodule is committed before the new files
  come.\<close>

definition checkpoint_commit :: "skill_env \<Rightarrow> unit run" where
  "checkpoint_commit se =
     try_catch
       (bnd (exec (status_checkpoint se) ''git status --porcelain'') (\<lambda>statusOutput.
          if trim statusOutput \<noteq> []
          then exec_unit (commit_checkpoint se)
                 (''git commit -m '' @ [DQ]
                    @ ''Remove submodule before uploading as regular files'' @ [DQ])
          else ret ()))
       (\<lambda>e. emit [Log (''Note: Could not commit submodule removal: '' @ msg_or_unknown e)])"

text \<open>The call \<open>copyRecursive(skill.baseDir, targetSkillDir)\<close>.\<close>

definition copy_tree :: "skill_env \<Rightarrow> string \<Rightarrow> string \<Rightarrow> unit run" where
  "copy_tree se src dest =
     (case copyRecursive (source_readable se) (source_entries se) of
        (made, raised) \<Rightarrow>
          ([CopyTree src dest made], if raised then Inl (Raise (copy_error se)) else Inr ()))"

text \<open>Lines 732 to 748: the checks after the copy.\<close>

definition verify_copied :: "bool \<Rightarrow> skill_env \<Rightarrow> string \<Rightarrow> string \<Rightarrow> unit run" where
  "verify_copied win se targetSkillDir skillName =
     bnd (lift (ensureGitDirectoryRemoved win (git_after_copy se) targetSkillDir ''target''))
       (\<lambda>removed.
          if \<not> removed then
            thn (emit [Spin (''CRITICAL: Failed to remove .git directory from '' @ skillName)])
                (stop_with (Exit 1))
          else
            bnd (probe (path_join win targetSkillDir ''SKILL.md'') (skill_md_exists se)) (\<lambda>found.
              if \<not> found then
                thn (emit [Spin (''Failed to copy '' @ skillName @ '': SKILL.md not found''),
                           Log (''Error: SKILL.md was not copied to '' @ targetSkillDir)])
                    (stop_with (Exit 1))
              else emit [Spin (''Copied '' @ skillName)]))"

text \<open>Lines 576 to 748: the body of the \<open>try\<close> block that copies one bundle.\<close>

definition copy_body :: "bool \<Rightarrow> skill_env \<Rightarrow> string \<Rightarrow> string \<Rightarrow> skill \<Rightarrow> unit run" where
  "copy_body win se localRepoDir targetSkillDir sk =
     bnd (probe targetSkillDir (target_still_exists se)) (\<lambda>ex.
     bnd (if ex then remove_existing win se localRepoDir targetSkillDir (skill_name sk)
          else ret False) (\<lambda>wasSubmodule.
     thn (if wasSubmodule then checkpoint_commit se else ret ())
    (thn (fs_call (MkdirSync targetSkillDir) (mkdir_target se))
    (thn (copy_tree se (skill_baseDir sk) targetSkillDir)
         (verify_copied win se targetSkillDir (skill_name sk))))))"

text \<open>Lines 575 to 754: the spinner, the \<open>try\<close> block and its \<open>catch\<close>.\<close>

definition copy_skill :: "bool \<Rightarrow> skill_env \<Rightarrow> string \<Rightarrow> string \<Rightarrow> skill \<Rightarrow> unit run" where
  "copy_skill win se localRepoDir targetSkillDir sk =
     thn (emit [Spin (''Copying '' @ skill_name sk @ ''...'')])
       (try_catch (copy_body win se localRepoDir targetSkillDir sk)
          (\<lambda>e. thn (emit [Spin (''Failed to copy '' @ skill_name sk),
                          Log (''Error: '' @ msg_or_unknown e)])
                   (stop_with (Exit 1))))"

text \<open>Lines 543 to 755: the body of the loop over the bundles, for the bundle at the
  index \<open>i\<close>. Its \<open>continue\<close> is the end of the body.\<close>

definition process_skill ::
  "UploadOptions \<Rightarrow> env \<Rightarrow> string \<Rightarrow> string \<Rightarrow> nat \<Rightarrow> skill \<Rightarrow> unit run" where
  "process_skill options ev skillsDir localRepoDir i sk =
     (if \<not> isValidSkillName (skill_name sk) then
        thn (emit [Log (''Error: Invalid skill name '' @ [SQ] @ skill_name sk @ [SQ]
               @ ''. Skill names can only contain letters, numbers, dots, hyphens, and underscores.'')])
            (stop_with (Exit 1))
      else
        (let targetSkillDir = path_join (is_win32 ev) skillsDir (skill_name sk);
             se = per_skill ev i
         in
         bnd (probe targetSkillDir (target_exists se)) (\<lambda>ex.
         bnd (if ex \<and> \<not> opt_yes options then confirm_overwrite se (skill_name sk)
              else ret True) (\<lambda>shouldOverwrite.
         if shouldOverwrite
         then copy_skill (is_win32 ev) se localRepoDir targetSkillDir sk
         else ret ()))))"

text \<open>The loop over the bundles, from the bundle at the index \<open>i\<close>.\<close>

fun copy_skills :: "UploadOptions \<Rightarrow> env \<Rightarrow> string \<Rightarrow> string \<Rightarrow> nat \<Rightarrow> skill list \<Rightarrow> unit run"
where
  "copy_skills options ev skillsDir localRepoDir i [] = ret ()"
| "copy_skills options ev skillsDir localRepoDir i (sk # rest) =
     thn (process_skill options ev skillsDir localRepoDir i sk)
         (copy_skills options ev skillsDir localRepoDir (Suc i) rest)"

section \<open>The publish pipeline: the working copy\<close>

text \<open>Lines 489 to 504: the repository is cloned.\<close>

definition clone_repository :: "env \<Rightarrow> string \<Rightarrow> string \<Rightarrow> string \<Rightarrow> unit run" where
  "clone_repository ev repoUrl reposDir localRepoDir =
     thn (emit [Spin ''Cloning repository...''])
       (try_catch
          (thn (fs_call (MkdirSync reposDir) (mkdir_repos ev))
          (thn (exec_unit (git_clone ev)
                  (''git clone '' @ [DQ] @ repoUrl @ [DQ] @ '' '' @ [DQ] @ localRepoDir @ [DQ]))
               (emit [Spin ''Repository cloned''])))
          (\<lambda>e. thn (emit ([Spin ''Failed to clone repository''] @ dump_buffer (err_stderr e)
                     @ [Log ([LF] @ ''Tip: Check your Git credentials (SSH keys or credential helper)'')]))
                   (stop_with (Exit 1))))"

text \<open>The loop of lines 514 to 524 over the candidate branches, from the candidate at the
  index \<open>j\<close>: whether a pull has succeeded.\<close>

fun pull_loop :: "env \<Rightarrow> nat \<Rightarrow> string list \<Rightarrow> bool run" where
  "pull_loop ev j [] = ret False"
| "pull_loop ev j (branch # rest) =
     try_catch
       (bnd (sanitizeBranchName branch) (\<lambda>safeBranch.
          bnd (exec (git_pull ev j) (''git pull origin '' @ safeBranch)) (\<lambda>out. ret True)))
       (\<lambda>e. pull_loop ev (Suc j) rest)"

text \<open>Lines 506 to 536: the repository is there and is updated.\<close>

definition update_repository :: "env \<Rightarrow> unit run" where
  "update_repository ev =
     thn (emit [Spin ''Updating repository...''])
       (try_catch
          (thn (exec_unit (git_fetch ev) ''git fetch origin'')
             (bnd (getCurrentBranch (rev_parse_pull ev)) (\<lambda>currentBranch.
              bnd (pull_loop ev 0 (currentBranch # DEFAULT_BRANCHES)) (\<lambda>pullSuccess.
                if pullSuccess then emit [Spin ''Repository updated'']
                else emit [Spin ''Repository ready'']))))
          (\<lambda>e. emit [Spin ''Repository ready'']))"

section \<open>The publish pipeline: staging, commit and push\<close>

definition commit_message :: "UploadOptions \<Rightarrow> skill list \<Rightarrow> string" where
  "commit_message options skills =
     or_else (opt_message options)
       (case skills of
          [sk] \<Rightarrow> ''Upload skill: '' @ skill_name sk
        | _ \<Rightarrow> ''Upload '' @ string_of_nat (length skills) @ '' skills: ''
               @ join_with '', '' (map skill_name skills))"

text \<open>Lines 765 to 771: the loop before staging, from the bundle at the index \<open>i\<close>.\<close>

fun ensure_all :: "env \<Rightarrow> string \<Rightarrow> nat \<Rightarrow> skill list \<Rightarrow> unit run" where
  "ensure_all ev localRepoDir i [] = ret ()"
| "ensure_all ev localRepoDir i (sk # rest) =
     bnd (lift (ensureGitDirectoryRemoved (is_win32 ev) (git_before_stage (per_skill ev i))
                  (path_join (is_win32 ev) (path_join (is_win32 ev) localRepoDir ''skills'')
                     (skill_name sk))
                  (skill_name sk @ '' before adding to Git'')))
       (\<lambda>removed. if \<not> removed then stop_with (Exit 1)
                   else ensure_all ev localRepoDir (Suc i) rest)"

text \<open>Lines 778 to 798: the staging loop, from the bundle at the index \<open>i\<close>.\<close>

fun add_skills :: "env \<Rightarrow> string \<Rightarrow> nat \<Rightarrow> skill list \<Rightarrow> unit run" where
  "add_skills ev localRepoDir i [] = ret ()"
| "add_skills ev localRepoDir i (sk # rest) =
     (let skillPath = path_join (is_win32 ev) ''skills'' (skill_name sk);
          skillDir = path_join (is_win32 ev) localRepoDir skillPath;
          se = per_skill ev i
      in
      bnd (lift (ensureGitDirectoryRemoved (is_win32 ev) (git_before_add se) skillDir
                   ''before git add''))
        (\<lambda>removed.
           if \<not> removed then
             thn (emit [Log ''CRITICAL: Failed to remove .git before git add''])
                 (stop_with (Exit 1))
           else
             thn (try_catch
                    (exec_unit (add_path se)
                       (''git add -f '' @ [DQ] @ escapeGitPath skillPath @ [DQ]))
                    (\<lambda>e. exec_unit (add_dir se)
                       (''git add -f '' @ [DQ] @ escapeGitPath skillPath @ ''/'' @ [DQ])))
                 (add_skills ev localRepoDir (Suc i) rest)))"

text \<open>Lines 774 to 810.\<close>

definition stage_skills :: "env \<Rightarrow> string \<Rightarrow> skill list \<Rightarrow> unit run" where
  "stage_skills ev localRepoDir skills =
     thn (emit [Spin ''Adding files to Git...''])
       (try_catch
          (thn (add_skills ev localRepoDir 0 skills)
          (thn (exec_unit (git_add_all ev) ''git add -A'')
               (emit [Spin ''Files added to Git''])))
          (\<lambda>e. thn (emit ([Spin ''Failed to add files to Git''] @ dump_buffer (err_stderr e)))
                   (stop_with (Exit 1))))"

text \<open>\<open>s.split('\n')\<close>, for the first ten lines of a listing.\<close>

fun split_on :: "char \<Rightarrow> string \<Rightarrow> string list" where
  "split_on c [] = [[]]"
| "split_on c (x # xs) =
     (if x = c then [] # split_on c xs
      else (case split_on c xs of [] \<Rightarrow> [[x]] | w # ws \<Rightarrow> (x # w) # ws))"

text \<open>Lines 813 to 853: is there anything to commit?\<close>

definition check_changes :: "env \<Rightarrow> unit run" where
  "check_changes ev =
     thn (emit [Spin ''Checking for changes...''])
       (try_catch
          (bnd (exec (git_status ev) ''git status --porcelain'') (\<lambda>statusOutput.
             if trim statusOutput = [] then
               thn (emit [Spin ''No changes to commit'',
                          Log ''No changes detected. Skills are already up to date.''])
               (thn (try_catch
                       (bnd (exec (git_ls_files ev) ''git ls-files skills/'') (\<lambda>lsOutput.
                          if trim lsOutput \<noteq> [] then
                            emit [Log ([LF] @ ''Files in Git index:''),
                                  Log (join_with [LF] (take 10 (split_on LF (trim lsOutput))))]
                          else ret ()))
                       (\<lambda>e. emit [Log (''Note: Could not list files in Git index: ''
                                    @ msg_or_unknown e)]))
                    (stop_with Return))
             else emit [Spin ''Changes detected'']))
          (\<lambda>e. thn (emit ([Spin ''Failed to check changes''] @ dump_string (err_stderr e)))
                   (stop_with (Exit 1))))"

text \<open>The lines the \<open>catch\<close> block of the commit prints before it looks at the text
  (without the line that shows the \<open>code\<close> of the error object).\<close>

definition commit_error_details :: "js_err \<Rightarrow> event list" where
  "commit_error_details e =
     [Spin ''Failed to commit changes'', Log ([LF] @ ''=== Commit Error Details ==='')]
     @ (case err_stderr e of
          Some s \<Rightarrow> if s \<noteq> [] then [Log ''Stderr:'', Log (trim s)] else []
        | None \<Rightarrow> [])
     @ (case err_stdout e of
          Some s \<Rightarrow> if s \<noteq> [] then [Log ''Stdout:'', Log (trim s)] else []
        | None \<Rightarrow> [])"

text \<open>Lines 856 to 928: the commit.\<close>

definition commit_changes :: "env \<Rightarrow> string \<Rightarrow> unit run" where
  "commit_changes ev commitMessage =
     thn (emit [Spin ''Committing changes...''])
       (try_catch
          (bnd (exec (git_commit ev)
                  (''git commit -m '' @ [DQ] @ escapeCommitMessage commitMessage @ [DQ]))
             (\<lambda>output.
                thn (emit [Spin ''Changes committed''])
                    (if trim output \<noteq> [] then emit [Log (trim output)] else ret ())))
          (\<lambda>e.
             thn (emit (commit_error_details e))
               (let errorText = toLowerCase (err_text e) in
                if includes_str errorText ''nothing to commit''
                   \<or> includes_str errorText ''nothing added to commit''
                then thn (emit [Log ([LF] @ ''No changes to commit. Skills are already up to date.'')])
                         (stop_with Return)
                else
                  thn (if includes_str errorText ''author'' \<or> includes_str errorText ''user.name''
                          \<or> includes_str errorText ''user.email''
                       then emit [Log ([LF] @ ''Tip: Configure Git user name and email:''),
                                  Log (''  git config --global user.name '' @ [DQ] @ ''Your Name'' @ [DQ]),
                                  Log (''  git config --global user.email '' @ [DQ]
                                       @ ''your.email@example.com'' @ [DQ])]
                       else ret ())
                      (stop_with (Exit 1)))))"

text \<open>The loop of lines 963 to 996 over the candidate branches, from the candidate at the
  index \<open>j\<close>: the final values of \<open>pushSuccess\<close> and \<open>lastError\<close>.\<close>

fun push_loop ::
  "env \<Rightarrow> string \<Rightarrow> nat \<Rightarrow> js_err option \<Rightarrow> string list \<Rightarrow> (bool \<times> js_err option) run"
where
  "push_loop ev currentBranch j lastError [] = ret (False, lastError)"
| "push_loop ev currentBranch j lastError (branch # rest) =
     try_catch
       (bnd (sanitizeBranchName branch) (\<lambda>safeBranch.
          bnd (exec (git_push ev j)
                 (if branch = currentBranch then ''git push -u origin '' @ safeBranch
                  else ''git push origin '' @ safeBranch))
            (\<lambda>out. ret (True, lastError))))
       (\<lambda>e. let errorMsg = err_text e in
          if includes_str errorMsg (''refs/heads/'' @ branch)
             \<or> includes_str errorMsg ''Could not read''
          then push_loop ev currentBranch (Suc j) (Some e) rest
          else ret (False, Some e))"

text \<open>Lines 1020 to 1029: the remediation hint chosen from the diagnostic text.\<close>

definition push_hint :: "string \<Rightarrow> string \<Rightarrow> event list" where
  "push_hint errorMsg currentBranch =
     (if includes_str errorMsg ''authentication'' \<or> includes_str errorMsg ''permission''
         \<or> includes_str errorMsg ''denied''
      then [Log ([LF] @ ''Tip: Check your Git credentials (SSH keys or credential helper)'')]
      else if includes_str errorMsg ''no upstream'' \<or> includes_str errorMsg ''no tracking''
      then [Log ([LF] @ ''Tip: The branch may not exist on remote. Try:''),
            Log (''  git push -u origin '' @ currentBranch)]
      else if includes_str errorMsg ''rejected'' \<or> includes_str errorMsg ''non-fast-forward''
      then [Log ([LF] @ ''Tip: Remote has changes that you don'' @ [SQ] @ ''t have. Try:''),
            Log (''  git pull origin '' @ currentBranch @ '' --rebase''),
            Log (''  git push origin '' @ currentBranch)]
      else [])"

text \<open>Lines 1010 to 1038: the report of a failed push.\<close>

definition push_failure_report :: "js_err option \<Rightarrow> string \<Rightarrow> event list" where
  "push_failure_report lastError currentBranch =
     [Spin ''Failed to push to remote'', Log ([LF] @ ''=== Push Error Details ==='')]
     @ (case lastError of
          None \<Rightarrow> []
        | Some e \<Rightarrow>
            (case err_stderr e of
               Some s \<Rightarrow>
                 if s \<noteq> [] then [Log ''Stderr:'', Log (trim s)] @ push_hint (trim s) currentBranch
                 else []
             | None \<Rightarrow> [])
            @ (case err_stdout e of
                 Some s \<Rightarrow> if s \<noteq> [] then [Log ''Stdout:'', Log (trim s)] else []
               | None \<Rightarrow> []))"

definition push_success_report :: "string list \<Rightarrow> event list" where
  "push_success_report skillNames =
     [Spin ''Pushed to remote'']
     @ (case skillNames of
          [n] \<Rightarrow> [Log ([LF] @ ''Successfully uploaded skill: '' @ n)]
        | _ \<Rightarrow> Log ([LF] @ ''Successfully uploaded '' @ string_of_nat (length skillNames)
                    @ '' skills:'')
               # map (\<lambda>n. Log (''  - '' @ n)) skillNames)"

definition pushToRemote :: "env \<Rightarrow> string list \<Rightarrow> unit run" where
  "pushToRemote ev skillNames =
     thn (emit [Spin ''Pushing to remote...''])
    (thn (try_catch
            (bnd (exec (remote_url ev) ''git remote get-url origin'') (\<lambda>remoteUrl.
               emit [Log (''Remote: '' @ trim remoteUrl)]))
            (\<lambda>e. thn (emit [Spin ''No remote repository configured'',
                            Log ''Error: Remote repository not found''])
                     (stop_with (Exit 1))))
    (bnd (getCurrentBranch (rev_parse_push ev)) (\<lambda>currentBranch.
     thn (emit [Log (''Current branch: '' @ currentBranch)])
    (bnd (push_loop ev currentBranch 0 None (currentBranch # DEFAULT_BRANCHES)) (\<lambda>(pushSuccess, lastError).
       if pushSuccess then emit (push_success_report skillNames)
       else thn (emit (push_failure_report lastError currentBranch)) (stop_with (Exit 1)))))))"

section \<open>The publish pipeline: the whole\<close>

text \<open>The local clone of the repository, in \<open>.openskills/repos\<close> under the home directory.\<close>

definition reposDir_of :: "env \<Rightarrow> string" where
  "reposDir_of ev =
     path_join (is_win32 ev) (path_join (is_win32 ev) (home ev) ''.openskills'') ''repos''"

definition localRepoDir_of :: "env \<Rightarrow> string \<Rightarrow> string" where
  "localRepoDir_of ev repoName =
     (let safeRepoName = (if last_segment repoName \<noteq> [] then last_segment repoName
                          else repoName)
      in path_join (is_win32 ev) (reposDir_of ev) safeRepoName)"

definition skillsDir_of :: "env \<Rightarrow> string \<Rightarrow> string" where
  "skillsDir_of ev repoName = path_join (is_win32 ev) (localRepoDir_of ev repoName) ''skills''"

text \<open>Lines 482 to 540: the working copy is cloned or updated, and its directory of
  bundles made.\<close>

definition prepare_repository :: "env \<Rightarrow> string \<Rightarrow> string \<Rightarrow> unit run" where
  "prepare_repository ev repoUrl repoName =
     bnd (probe (localRepoDir_of ev repoName) (repo_exists ev)) (\<lambda>ex.
     thn (if \<not> ex
          then clone_repository ev repoUrl (reposDir_of ev) (localRepoDir_of ev repoName)
          else update_repository ev)
         (fs_call (MkdirSync (skillsDir_of ev repoName)) (mkdir_skills ev)))"

text \<open>Lines 812 to 931: the check for changes, the commit and the push.\<close>

definition commit_and_push :: "env \<Rightarrow> string \<Rightarrow> string list \<Rightarrow> unit run" where
  "commit_and_push ev commitMessage skillNames =
     thn (check_changes ev)
    (thn (commit_changes ev commitMessage)
         (pushToRemote ev skillNames))"

text \<open>Lines 757 to 931: all that follows the loop over the bundles.\<close>

definition stage_and_publish :: "env \<Rightarrow> UploadOptions \<Rightarrow> string \<Rightarrow> skill list \<Rightarrow> unit run" where
  "stage_and_publish ev options localRepoDir skills =
     thn (ensure_all ev localRepoDir 0 skills)
    (thn (stage_skills ev localRepoDir skills)
         (commit_and_push ev (commit_message options skills) (map skill_name skills)))"

definition uploadToRepository ::
  "env \<Rightarrow> skill list \<Rightarrow> string \<Rightarrow> string \<Rightarrow> UploadOptions \<Rightarrow> unit run" where
  "uploadToRepository ev skills repoUrl repoName options =
     (if \<not> isValidRepoName repoName then
        thn (emit [Log (''Error: Invalid repository name '' @ [SQ] @ repoName @ [SQ]
               @ ''. Repository names can only contain letters, numbers, dots, hyphens, and ''
               @ ''underscores, and cannot contain path traversal characters.'')])
            (stop_with (Exit 1))
      else if \<not> isValidGitUrl repoUrl then
        thn (emit [Log (''Error: Invalid Git URL '' @ [SQ] @ repoUrl @ [SQ]
               @ ''. URL must start with http://, https://, git://, or git@, and cannot ''
               @ ''contain command injection characters.'')])
            (stop_with (Exit 1))
      else
        thn (prepare_repository ev repoUrl repoName)
       (thn (copy_skills options ev (skillsDir_of ev repoName) (localRepoDir_of ev repoName) 0
               skills)
            (stage_and_publish ev options (localRepoDir_of ev repoName) skills)))"

text \<open>A run has completed successfully when \<open>uploadToRepository\<close> has returned, at its end
  or early; the process then ends with the status 0.\<close>

definition completed :: "unit run \<Rightarrow> bool" where
  "completed r = (snd r = Inr () \<or> snd r = Inl Return)"

text \<open>The command lines of a trace, in order.\<close>

fun execs :: "event list \<Rightarrow> string list" where
  "execs [] = []"
| "execs (Exec cmd # tr) = cmd # execs tr"
| "execs (e # tr) = execs tr"

section \<open>Notions for the properties\<close>

text \<open>Ways a run can end: \<open>no_return m\<close>, not by an early return of \<open>uploadToRepository\<close>;
  \<open>raises_only m\<close>, if it stops at all, then by an exception.\<close>

definition no_return :: "'a run \<Rightarrow> bool" where
  "no_return m = (snd m \<noteq> Inl Return)"

definition raises_only :: "'a run \<Rightarrow> bool" where
  "raises_only m = (\<forall>s. snd m = Inl s \<longrightarrow> (\<exists>e. s = Raise e))"

text \<open>The file system has shown the metadata directory absent during a call of
  \<open>removeGitDirectory\<close>: on entry, or at the re-check of one of the attempts.\<close>

definition git_dir_gone :: "rm_script \<Rightarrow> bool" where
  "git_dir_gone sc =
     (\<not> exists_at_entry sc
      \<or> list_ex (\<lambda>j. attempt_at sc j = RmReturns False) [0 ..< MAX_RETRY_ATTEMPTS])"

text \<open>The two checks after the copy of a bundle succeed: the metadata directory is
  absent from the target, and the entry file \<open>SKILL.md\<close> is there.\<close>

definition verified :: "skill_env \<Rightarrow> bool" where
  "verified se = (git_dir_gone (git_after_copy se) \<and> skill_md_exists se)"

text \<open>The loop copies the bundle: it is not so that the target exists, confirmations are
  asked for, and the answer is anything but yes.\<close>

definition was_copied :: "UploadOptions \<Rightarrow> skill_env \<Rightarrow> bool" where
  "was_copied options se =
     (\<not> (target_exists se \<and> \<not> opt_yes options \<and> confirm_reply se \<noteq> Accepted))"

text \<open>One of the three failure messages of the copy of a bundle is in the trace.\<close>

definition failure_reported :: "string \<Rightarrow> event list \<Rightarrow> bool" where
  "failure_reported skillName tr =
     (Spin (''CRITICAL: Failed to remove .git directory from '' @ skillName) \<in> set tr
      \<or> Spin (''Failed to copy '' @ skillName @ '': SKILL.md not found'') \<in> set tr
      \<or> Spin (''Failed to copy '' @ skillName) \<in> set tr)"

text \<open>The run has come to the check for changes: the names are valid and every stage
  before the check has gone on to the next. \<open>trace_to_check\<close> is what it has done until
  then.\<close>

definition reaches_check :: "env \<Rightarrow> skill list \<Rightarrow> string \<Rightarrow> string \<Rightarrow> UploadOptions \<Rightarrow> bool" where
  "reaches_check ev skills repoUrl repoName options =
     (isValidRepoName repoName \<and> isValidGitUrl repoUrl \<and>
      snd (prepare_repository ev repoUrl repoName) = Inr () \<and>
      snd (copy_skills options ev (skillsDir_of ev repoName) (localRepoDir_of ev repoName) 0 skills)
        = Inr () \<and>
      snd (ensure_all ev (localRepoDir_of ev repoName) 0 skills) = Inr () \<and>
      snd (stage_skills ev (localRepoDir_of ev repoName) skills) = Inr ())"

definition trace_to_check ::
  "env \<Rightarrow> skill list \<Rightarrow> string \<Rightarrow> string \<Rightarrow> UploadOptions \<Rightarrow> event list" where
  "trace_to_check ev skills repoUrl repoName options =
     fst (prepare_repository ev repoUrl repoName)
     @ fst (copy_skills options ev (skillsDir_of ev repoName) (localRepoDir_of ev repoName) 0 skills)
     @ fst (ensure_all ev (localRepoDir_of ev repoName) 0 skills)
     @ fst (stage_skills ev (localRepoDir_of ev repoName) skills)"

text \<open>The run has come to the bundle that follows the bundles \<open>earlier\<close>: the names of the
  repository are valid, the working copy is ready, and the loop has gone through the
  earlier bundles.\<close>

definition reaches_bundle :: "env \<Rightarrow> UploadOptions \<Rightarrow> skill list \<Rightarrow> string \<Rightarrow> string \<Rightarrow> bool" where
  "reaches_bundle ev options earlier repoUrl repoName =
     (isValidRepoName repoName \<and> isValidGitUrl repoUrl \<and>
      snd (prepare_repository ev repoUrl repoName) = Inr () \<and>
      snd (copy_skills options ev (skillsDir_of ev repoName) (localRepoDir_of ev repoName) 0
             earlier) = Inr ())"

definition trace_to_bundle ::
  "env \<Rightarrow> UploadOptions \<Rightarrow> skill list \<Rightarrow> string \<Rightarrow> string \<Rightarrow> event list" where
  "trace_to_bundle ev options earlier repoUrl repoName =
     fst (prepare_repository ev repoUrl repoName)
     @ fst (copy_skills options ev (skillsDir_of ev repoName) (localRepoDir_of ev repoName) 0
              earlier)"

text \<open>What follows the bundle at the index \<open>i\<close>: the rest of the loop, then the stages
  after the loop, which go over all the bundles of the list.\<close>

definition rest_of_run ::
  "env \<Rightarrow> UploadOptions \<Rightarrow> string \<Rightarrow> nat \<Rightarrow> skill list \<Rightarrow> skill list \<Rightarrow> unit run" where
  "rest_of_run ev options repoName i rest skills =
     thn (copy_skills options ev (skillsDir_of ev repoName) (localRepoDir_of ev repoName) (Suc i)
            rest)
         (stage_and_publish ev options (localRepoDir_of ev repoName) skills)"

text \<open>
  The push step, as the claim words it. An answer of the version-control process to a
  push is a success, or a failure whose diagnostic text says that the branch is missing
  on the remote, or another failure. The current branch is what \<open>getCurrentBranch\<close>
  returns. \<open>missing_run\<close> counts the candidates, from the first, whose push fails with a
  missing branch. \<open>pushes\<close> are the push commands of a trace and \<open>tips\<close> its remediation
  hints; the three hints of the source follow.
\<close>

definition push_ok :: "exec_result \<Rightarrow> bool" where
  "push_ok r = (case r of ExecOk out \<Rightarrow> True | ExecFail e \<Rightarrow> False)"

definition branch_missing :: "exec_result \<Rightarrow> string \<Rightarrow> bool" where
  "branch_missing r branch =
     (case r of
        ExecOk out \<Rightarrow> False
      | ExecFail e \<Rightarrow> includes_str (err_text e) (''refs/heads/'' @ branch)
                       \<or> includes_str (err_text e) ''Could not read'')"

definition push_command :: "string \<Rightarrow> string \<Rightarrow> string" where
  "push_command currentBranch branch =
     (if branch = currentBranch then ''git push -u origin '' @ branch
      else ''git push origin '' @ branch)"

definition current_branch :: "exec_result \<Rightarrow> string" where
  "current_branch r =
     (case r of
        ExecOk out \<Rightarrow> if isValidBranchName (trim out) then trim out else ''main''
      | ExecFail e \<Rightarrow> ''main'')"

definition missing_run :: "env \<Rightarrow> string list \<Rightarrow> nat" where
  "missing_run ev cands =
     length (takeWhile (\<lambda>j. branch_missing (git_push ev j) (cands ! j)) [0, 1, 2])"

definition pushes :: "event list \<Rightarrow> string list" where
  "pushes tr = filter (\<lambda>cmd. startsWith cmd ''git push'') (execs tr)"

fun is_tip :: "event \<Rightarrow> bool" where
  "is_tip (Log s) = startsWith s ([LF] @ ''Tip:'')"
| "is_tip e = False"

definition tips :: "event list \<Rightarrow> event list" where
  "tips tr = filter is_tip tr"

definition auth_hint :: event where
  "auth_hint = Log ([LF] @ ''Tip: Check your Git credentials (SSH keys or credential helper)'')"

definition upstream_hint :: event where
  "upstream_hint = Log ([LF] @ ''Tip: The branch may not exist on remote. Try:'')"

definition rebase_hint :: event where
  "rebase_hint = Log ([LF] @ ''Tip: Remote has changes that you don'' @ [SQ] @ ''t have. Try:'')"

text \<open>
  The text that selects the hint: the standard-error text, trimmed, of the last attempt
  made, which is the attempt the sequence has stopped at, or the third when all three
  branches are missing (\<open>n\<close> is the number of leading candidates that are missing); it is
  empty when that attempt has left no such text. The three kinds of failure are told by
  the words the text holds.
\<close>

definition failure_text :: "env \<Rightarrow> nat \<Rightarrow> string" where
  "failure_text ev n =
     (case git_push ev (min n 2) of
        ExecOk out \<Rightarrow> []
      | ExecFail e \<Rightarrow> (case err_stderr e of Some s \<Rightarrow> trim s | None \<Rightarrow> []))"

definition auth_failure :: "string \<Rightarrow> bool" where
  "auth_failure t =
     (includes_str t ''authentication'' \<or> includes_str t ''permission'' \<or> includes_str t ''denied'')"

definition upstream_failure :: "string \<Rightarrow> bool" where
  "upstream_failure t = (includes_str t ''no upstream'' \<or> includes_str t ''no tracking'')"

definition rebase_failure :: "string \<Rightarrow> bool" where
  "rebase_failure t = (includes_str t ''rejected'' \<or> includes_str t ''non-fast-forward'')"




section \<open>Concrete inputs\<close>

text \<open>A bundle with metadata files at three depths and with links of every kind.\<close>

definition demo_tree :: "(string \<times> fsnode) list" where
  "demo_tree =
     [(''SKILL.md'', File (Some ''# demo'')),
      (''.git'', Dir True True [(''HEAD'', File (Some ''ref''))]),
      (''.gitignore'', File (Some ''dist'')),
      (''notes'', LinkFile (Some ''n'')),
      (''gone'', LinkBroken),
      (''denied'', LinkError),
      (''lib'', LinkDir True True
         [(''.git'', Dir True True []), (''.gitattributes'', LinkFile (Some ''x'')),
          (''a.txt'', File (Some ''a'')),
          (''deep'', Dir True True [(''.git'', File (Some ''gitdir: x'')), (''b'', LinkFile (Some ''b''))])])]"

text \<open>What \<open>escapeCommitMessage\<close> makes of one character of its input.\<close>

definition msg_tok :: "char \<Rightarrow> string" where
  "msg_tok x = (if x = BSL then [BSL, BSL] else if x = DQ then [BSL, DQ]
     else if x = DOLLAR then [BSL, DOLLAR] else if x = BTICK then [BSL, BTICK]
     else if x = LF then '' '' else if x = CR \<or> x = NUL then [] else [x])"

text \<open>A parser that knows three texts.\<close>

definition demo_repo :: json where
  "demo_repo = JObj [(''name'', JStr ''team''), (''url'', JStr ''git@example.com:team/skills.git''),
     (''addedAt'', JStr ''2025-01-01T00:00:00.000Z'')]"

definition demo_parse :: "string \<Rightarrow> json option" where
  "demo_parse s =
     (if s = ''{repositories:[team]}'' then Some (JObj [(''repositories'', JArr [demo_repo])])
      else if s = ''{repositories:7}'' then Some (JObj [(''repositories'', JNum 7)])
      else if s = ''null'' then Some JNull
      else None)"

text \<open>A file system that holds the configuration file of the user \<open>u\<close> in the state \<open>f\<close>
  and nothing else.\<close>

definition only_config :: "file_state \<Rightarrow> string \<Rightarrow> file_state" where
  "only_config f path = (if path = ''/home/u/.openskills/repositories.json'' then f else Missing)"



definition never_gone :: rm_script where
  "never_gone = \<lparr>exists_at_entry = True, attempt_at = (\<lambda>i. RmReturns True),
     exists_at_end = True\<rparr>"

text \<open>The pieces of an environment where everything succeeds: no metadata directory
  anywhere, a bundle that is new in the repository, a remote that is cloned for the first
  time. \<open>git_failure\<close> is the error of a command that failed with the given diagnostic
  text.\<close>

definition no_git_dir :: rm_script where
  "no_git_dir = \<lparr>exists_at_entry = False, attempt_at = (\<lambda>i. RmReturns False), exists_at_end = False\<rparr>"

definition git_failure :: "string \<Rightarrow> js_err" where
  "git_failure text = \<lparr>err_stderr = Some text, err_stdout = Some [], err_message = Some ''Command failed''\<rparr>"

definition idle_cleanup :: cleanup_env where
  "idle_cleanup = \<lparr>gitmodules_exists = False, gitmodules_read = Inr [],
     gitmodules_strip = (\<lambda>n c. c), gitmodules_write = None, gitmodules_add = ExecOk [],
     gitmodules_unlink = None, gitmodules_git_rm = ExecOk [], config_exists = False,
     config_read = Inr [], config_strip = (\<lambda>n c. c), config_write = None,
     module_dir_exists = False, module_dir_rm = None, modules_skills_exists = False,
     modules_skills_list = Inr [], modules_skills_rm = None\<rparr>"

definition new_bundle :: skill_env where
  "new_bundle = \<lparr>target_exists = False, confirm_reply = Accepted, target_still_exists = False,
     nested_git = False, ls_stage = ExecOk [], git_rm_cached = ExecOk [], rm_target = None,
     nested_git_left = False, rm_nested_git = None, cleanup = idle_cleanup,
     status_checkpoint = ExecOk [], commit_checkpoint = ExecOk [], mkdir_target = None,
     source_readable = True, source_entries = demo_tree,
     copy_error = git_failure [], git_after_copy = no_git_dir, skill_md_exists = True,
     git_before_stage = no_git_dir, git_before_add = no_git_dir,
     add_path = ExecOk [], add_dir = ExecOk []\<rparr>"

definition fresh_remote :: env where
  "fresh_remote = \<lparr>home = ''/home/u'', is_win32 = False, repo_exists = False, mkdir_repos = None,
     git_clone = ExecOk [], git_fetch = ExecOk [], rev_parse_pull = ExecOk ''main'',
     git_pull = (\<lambda>j. ExecOk []), mkdir_skills = None, per_skill = (\<lambda>i. new_bundle),
     git_add_all = ExecOk [], git_status = ExecOk ''A  skills/demo/SKILL.md'',
     git_ls_files = ExecOk [], git_commit = ExecOk ''1 file changed'',
     remote_url = ExecOk ''git@example.com:team/skills.git'', rev_parse_push = ExecOk ''main'',
     git_push = (\<lambda>j. ExecOk [])\<rparr>"

definition demo :: skill where
  "demo = \<lparr>skill_name = ''demo'', skill_baseDir = ''/work/.claude/skills/demo''\<rparr>"

definition plain :: UploadOptions where
  "plain = \<lparr>opt_message = None, opt_yes = False\<rparr>"

definition team_url :: string where
  "team_url = ''git@example.com:team/skills.git''"

text \<open>Nothing has changed: the status is empty; or the commit finds nothing to commit.\<close>

definition up_to_date :: env where
  "up_to_date = fresh_remote\<lparr>git_status := ExecOk [LF]\<rparr>"

definition nothing_staged :: env where
  "nothing_staged = fresh_remote\<lparr>git_commit := ExecFail
     \<lparr>err_stderr = Some [], err_stdout = Some ''On branch main. Nothing to commit, working tree clean'',
      err_message = Some ''Command failed: git commit''\<rparr>\<rparr>"

text \<open>A bundle whose name is not valid, and a second valid one.\<close>

definition unnamed :: skill where
  "unnamed = \<lparr>skill_name = ''bad name'', skill_baseDir = ''/work/.claude/skills/bad name''\<rparr>"

definition pdf :: skill where
  "pdf = \<lparr>skill_name = ''pdf'', skill_baseDir = ''/work/.claude/skills/pdf''\<rparr>"

text \<open>A repository cloned before, where the first bundle replaces a submodule (so that its
  removal is committed) and the target of every later bundle exists, the prompt being
  answered by \<open>r\<close>.\<close>

definition replaced_submodule :: skill_env where
  "replaced_submodule = new_bundle\<lparr>target_exists := True, target_still_exists := True,
     nested_git := True, status_checkpoint := ExecOk ''D  skills/demo''\<rparr>"

definition existing_clone :: "reply \<Rightarrow> env" where
  "existing_clone r = fresh_remote\<lparr>repo_exists := True,
     per_skill := (\<lambda>i. if i = 0 then replaced_submodule
                         else new_bundle\<lparr>target_exists := True, target_still_exists := True,
                                confirm_reply := r\<rparr>)\<rparr>"

text \<open>The entry file is missing after the copy.\<close>

definition lost_entry :: env where
  "lost_entry = fresh_remote\<lparr>per_skill := (\<lambda>i. new_bundle\<lparr>skill_md_exists := False\<rparr>)\<rparr>"

text \<open>Environments for the push: no branch can be read on the remote; the current branch
  is missing there and the first default branch is not; the remote is ahead.\<close>

definition unreachable :: env where
  "unreachable = fresh_remote\<lparr>git_push :=
     (\<lambda>j. ExecFail (git_failure ''fatal: Could not read from remote repository.''))\<rparr>"

definition first_push :: env where
  "first_push = fresh_remote\<lparr>rev_parse_push := ExecOk (''feature/x'' @ [LF]),
     git_push := (\<lambda>j. if j = 0
        then ExecFail (git_failure ''error: src refspec refs/heads/feature/x does not match any'')
        else ExecOk [])\<rparr>"

definition behind_remote :: env where
  "behind_remote = fresh_remote\<lparr>git_push :=
     (\<lambda>j. ExecFail (git_failure '' ! [rejected] main -> main (non-fast-forward)''))\<rparr>"

text \<open>A metadata directory appears in the target and cannot be removed.\<close>

definition stubborn_git :: env where
  "stubborn_git = fresh_remote\<lparr>per_skill := (\<lambda>i. new_bundle\<lparr>git_after_copy := never_gone\<rparr>)\<rparr>"




text \<open>The push is refused for lack of permission.\<close>

definition no_permission :: env where
  "no_permission = fresh_remote\<lparr>git_push :=
     (\<lambda>j. ExecFail (git_failure ''remote: Permission to team/skills.git denied to u.''))\<rparr>"

section \<open>Properties of the identifier validators\<close>

lemma name_class_iff: "name_class c \<longleftrightarrow> c \<in> name_chars"
proof (cases c)
  case (Char b0 b1 b2 b3 b4 b5 b6 b7)
  show ?thesis
    unfolding Char name_class_def name_chars_def Let_def
    by (cases b0; cases b1; cases b2; cases b3; cases b4; cases b5; cases b6; cases b7; simp)
qed

lemma match_plus_iff: "match_plus P s \<longleftrightarrow> s \<noteq> [] \<and> (\<forall>c \<in> set s. P c)"
  by (induction s) auto

lemma isValidSkillName_iff: "isValidSkillName s \<longleftrightarrow> spec_isValidName s"
  unfolding isValidSkillName_def spec_isValidName_def match_plus_iff
  by (cases s) (auto simp: name_class_iff)

lemma isValidRepoName_iff:
  "isValidRepoName s \<longleftrightarrow> spec_isValidName s \<and> \<not> includes_str s ''..''"
proof -
  have slash: "\<not> includes_str t ''/''" if "set t \<subseteq> name_chars" for t
    using that by (induction t) (auto simp: name_chars_def)
  have bsl: "\<not> includes_str t [BSL]" if "set t \<subseteq> name_chars" for t
    using that by (induction t) (auto simp: name_chars_def)
  show ?thesis
    using slash [of s] bsl [of s]
    unfolding isValidRepoName_def spec_isValidName_def match_plus_iff
    by (cases s) (auto simp: name_class_iff)
qed

text \<open>
  C4 (as stated, refuted): the claim says that the skill-name validator and the
  repository-name validator accept exactly the same strings. The string \<open>a..b\<close> is
  accepted as a skill name and rejected as a repository name.
\<close>

theorem C4_same_set_counterexample:
  "isValidSkillName ''a..b'' \<and> \<not> isValidRepoName ''a..b''"
  by (simp add: isValidSkillName_def isValidRepoName_def name_class_def)

text \<open>
  C4 (amended): for every string \<open>s\<close>, the skill-name validator returns true if and only
  if \<open>s\<close> is 1 to 255 characters long and every character is drawn from
  \<open>[A-Za-z0-9._-]\<close>; the repository-name validator returns true if and only if \<open>s\<close>
  satisfies the same condition and moreover does not contain two consecutive dots. So
  every repository name accepted is a skill name accepted, not the other way round.
\<close>

theorem C4_name_validators:
  "(isValidSkillName s \<longleftrightarrow> spec_isValidName s) \<and>
   (isValidRepoName s \<longleftrightarrow> spec_isValidName s \<and> \<not> includes_str s ''..'')"
  using isValidSkillName_iff isValidRepoName_iff by simp

theorem C4_name_validators_witness:
  "isValidSkillName ''my-skill_1.0'' \<and> spec_isValidName ''my-skill_1.0'' \<and>
   isValidRepoName ''my-skill_1.0'' \<and> \<not> includes_str ''my-skill_1.0'' ''..'' \<and>
   isValidSkillName ''..'' \<and> \<not> isValidRepoName ''..'' \<and>
   \<not> isValidSkillName ''a b'' \<and> \<not> spec_isValidName ''a b''"
proof -
  have a: "isValidSkillName ''my-skill_1.0''"
    by (simp add: isValidSkillName_def name_class_def)
  have b: "isValidSkillName ''..''"
    by (simp add: isValidSkillName_def name_class_def)
  have c: "\<not> isValidSkillName ''a b''"
    by (simp add: isValidSkillName_def name_class_def)
  have d: "\<not> includes_str ''my-skill_1.0'' ''..''" by simp
  have e: "includes_str ''..'' ''..''" by simp
  show ?thesis
    using a b c d e C4_name_validators [of "''my-skill_1.0''"] C4_name_validators [of "''..''"]
      C4_name_validators [of "''a b''"]
    by blast
qed

section \<open>Properties of the removal loop\<close>

lemma retry_loop_stop: "\<not> i < MAX_RETRY_ATTEMPTS \<Longrightarrow> retry_loop att p i = ([], False)"
  by (simp add: retry_loop.simps [of att p i])

lemma retry_loop_raise:
  "i < MAX_RETRY_ATTEMPTS \<Longrightarrow> att i = RmRaises \<Longrightarrow>
   retry_loop att p i =
     ([RmSync p, Sleep FILE_SYSTEM_WAIT_MS] @ fst (retry_loop att p (Suc i)),
      snd (retry_loop att p (Suc i)))"
  by (simp add: retry_loop.simps [of att p i] split_def Let_def)

lemma retry_loop_still:
  "i < MAX_RETRY_ATTEMPTS \<Longrightarrow> att i = RmReturns True \<Longrightarrow>
   retry_loop att p i =
     ([RmSync p, Sleep FILE_SYSTEM_WAIT_MS, ExistsSync p True] @ fst (retry_loop att p (Suc i)),
      snd (retry_loop att p (Suc i)))"
  by (simp add: retry_loop.simps [of att p i] split_def Let_def)

lemma retry_loop_gone:
  "i < MAX_RETRY_ATTEMPTS \<Longrightarrow> att i = RmReturns False \<Longrightarrow>
   retry_loop att p i = ([RmSync p, Sleep FILE_SYSTEM_WAIT_MS, ExistsSync p False], True)"
  by (simp add: retry_loop.simps [of att p i])

lemma retry_induct [case_names stop raise still gone]:
  assumes "\<And>i. \<not> i < MAX_RETRY_ATTEMPTS \<Longrightarrow> P i"
    and "\<And>i. i < MAX_RETRY_ATTEMPTS \<Longrightarrow> att i = RmRaises \<Longrightarrow> P (Suc i) \<Longrightarrow> P i"
    and "\<And>i. i < MAX_RETRY_ATTEMPTS \<Longrightarrow> att i = RmReturns True \<Longrightarrow> P (Suc i) \<Longrightarrow> P i"
    and "\<And>i. i < MAX_RETRY_ATTEMPTS \<Longrightarrow> att i = RmReturns False \<Longrightarrow> P i"
  shows "P i"
proof (induction "MAX_RETRY_ATTEMPTS - i" arbitrary: i)
  case 0
  then show ?case using assms(1) by simp
next
  case (Suc n)
  then have lt: "i < MAX_RETRY_ATTEMPTS" and ih: "P (Suc i)" by auto
  show ?case
  proof (cases "att i")
    case RmRaises
    with lt ih show ?thesis using assms(2) by blast
  next
    case (RmReturns still)
    with lt ih show ?thesis using assms(3,4) by (cases still) auto
  qed
qed





lemma later_attempt:
  "att i \<noteq> RmReturns False \<Longrightarrow> i \<le> j \<Longrightarrow> att j = RmReturns False \<Longrightarrow> Suc i \<le> j"
  by (cases "j = i") auto

lemma retry_success_iff:
  "snd (retry_loop att p i) \<longleftrightarrow> (\<exists>j. i \<le> j \<and> j < MAX_RETRY_ATTEMPTS \<and> att j = RmReturns False)"
proof (induction i rule: retry_induct [where att = att])
  case (stop i)
  then show ?case by (auto simp: retry_loop_stop)
next
  case (raise i)
  then have no: "att i \<noteq> RmReturns False" by simp
  have "(\<exists>j. i \<le> j \<and> j < MAX_RETRY_ATTEMPTS \<and> att j = RmReturns False) \<longleftrightarrow>
        (\<exists>j. Suc i \<le> j \<and> j < MAX_RETRY_ATTEMPTS \<and> att j = RmReturns False)"
    using later_attempt [of att i, OF no] Suc_leD by blast
  with raise show ?case by (simp add: retry_loop_raise)
next
  case (still i)
  then have no: "att i \<noteq> RmReturns False" by simp
  have "(\<exists>j. i \<le> j \<and> j < MAX_RETRY_ATTEMPTS \<and> att j = RmReturns False) \<longleftrightarrow>
        (\<exists>j. Suc i \<le> j \<and> j < MAX_RETRY_ATTEMPTS \<and> att j = RmReturns False)"
    using later_attempt [of att i, OF no] Suc_leD by blast
  with still show ?case by (simp add: retry_loop_still)
next
  case (gone i)
  then show ?case by (auto simp: retry_loop_gone)
qed




section \<open>Properties of the recursive copy\<close>

lemma git_free_append: "git_free (xs @ ys) \<longleftrightarrow> git_free xs \<and> git_free ys"
  by (induction xs) auto

lemma link_free_append: "link_free (xs @ ys) \<longleftrightarrow> link_free xs \<and> link_free ys"
  by (induction xs) auto

lemma copy_git_free:
  "git_free (fst (copyRecursive rd es))"
  "git_free (fst (copyEntries es))"
  "\<not> isGitRelatedFile name \<Longrightarrow> git_free (fst (copyEntry name node))"
  by (induction rd es and es and name node rule: copyRecursive_copyEntries_copyEntry.induct)
     (auto simp: git_free_append split: prod.splits bool.splits)

lemma copy_link_free:
  "link_free (fst (copyRecursive rd es))"
  "link_free (fst (copyEntries es))"
  "link_free (fst (copyEntry name node))"
  by (induction rd es and es and name node rule: copyRecursive_copyEntries_copyEntry.induct)
     (auto simp: link_free_append split: prod.splits bool.splits)

lemma copy_refines_spec:
  "rd \<Longrightarrow> io_ok es \<Longrightarrow> copyRecursive rd es = (spec_copy es, False)"
  "io_ok es \<Longrightarrow> copyEntries es = (spec_copy es, False)"
  "io_ok_node node \<Longrightarrow>
     copyEntry name node = (case spec_copy_node node of None \<Rightarrow> [] | Some d \<Rightarrow> [(name, d)], False)"
  by (induction rd es and es and name node rule: copyRecursive_copyEntries_copyEntry.induct)
     (auto split: prod.splits bool.splits option.splits)

text \<open>
  C7: for every source tree, the recursive copy creates no entry named \<open>.git\<close>,
  \<open>.gitignore\<close> or \<open>.gitattributes\<close> at any depth of the destination, whatever fails on
  the way, and it creates no symbolic link. When no call of the file system fails, the
  destination is the tree the specification describes: a link to a file has become a
  file of that content, a link to a directory has become a directory holding the copy
  of what the link shows, and a link that is broken (\<open>statSync\<close> finds nothing) or cannot
  be followed (\<open>statSync\<close> raises) has left no entry.
\<close>

theorem C7_copy:
  "git_free (fst (copyRecursive rd es)) \<and> link_free (fst (copyRecursive rd es)) \<and>
   (io_ok es \<longrightarrow> copyRecursive True es = (spec_copy es, False))"
  using copy_git_free(1) copy_link_free(1) copy_refines_spec(1) by simp

theorem C7_copy_witness:
  "io_ok demo_tree \<and>
   copyRecursive True demo_tree =
     ([(''SKILL.md'', DFile ''# demo''), (''notes'', DFile ''n''),
       (''lib'', DDir [(''a.txt'', DFile ''a''), (''deep'', DDir [(''b'', DFile ''b'')])])], False) \<and>
   git_free (fst (copyRecursive True demo_tree)) \<and> link_free (fst (copyRecursive True demo_tree))"
proof -
  have ok: "io_ok demo_tree" by (simp add: demo_tree_def)
  have sp: "spec_copy demo_tree =
     [(''SKILL.md'', DFile ''# demo''), (''notes'', DFile ''n''),
       (''lib'', DDir [(''a.txt'', DFile ''a''), (''deep'', DDir [(''b'', DFile ''b'')])])]"
    by (simp add: demo_tree_def isGitRelatedFile_def)
  show ?thesis using ok sp C7_copy [of True demo_tree] by (simp add: isGitRelatedFile_def)
qed

section \<open>Properties of the escaping functions\<close>

lemma replace_all_concat_map:
  "replace_all c r (concat (map f s)) = concat (map (\<lambda>x. replace_all c r (f x)) s)"
  by (induction s) (simp_all add: replace_all_def)

lemma replace_all_as_map: "replace_all c r s = concat (map (\<lambda>x. if x = c then r else [x]) s)"
  by (simp add: replace_all_def)





text \<open>The sibling \<open>escapeCommitMessage\<close> escapes the backquote and the dollar sign too:
  its output is inert inside double quotes.\<close>

lemma escapeCommitMessage_tok: "escapeCommitMessage s = concat (map msg_tok s)"
proof -
  have "escapeCommitMessage s = concat (map (\<lambda>x. replace_all NUL [] (replace_all CR []
      (replace_all LF '' '' (replace_all BTICK [BSL, BTICK] (replace_all DOLLAR [BSL, DOLLAR]
        (replace_all DQ [BSL, DQ] (if x = BSL then [BSL, BSL] else [x]))))))) s)"
    unfolding escapeCommitMessage_def replace_all_as_map [of BSL] replace_all_concat_map ..
  also have "\<dots> = concat (map msg_tok s)"
    by (rule arg_cong [where f = concat], rule map_cong) (auto simp: msg_tok_def replace_all_def)
  finally show ?thesis .
qed

lemma dq_scan_msg_tok:
  "dq_scan (\<lambda>c. c = DQ \<or> c = BTICK \<or> c = DOLLAR) (msg_tok x @ rest) =
   dq_scan (\<lambda>c. c = DQ \<or> c = BTICK \<or> c = DOLLAR) rest"
  by (cases rest) (auto simp: msg_tok_def dq_escapable_def)

lemma escapeCommitMessage_inert:
  "dq_scan (\<lambda>c. c = DQ \<or> c = BTICK \<or> c = DOLLAR) (escapeCommitMessage s)"
  unfolding escapeCommitMessage_tok by (induction s) (simp_all add: dq_scan_msg_tok)



lemma dq_scan_plain: "\<forall>c \<in> set s. c \<noteq> BSL \<and> \<not> active c \<Longrightarrow> dq_scan active s"
  by (induction s) simp_all




section \<open>Properties of the configuration loader\<close>

text \<open>
  C10 (as stated, refuted): the claim says that loading the remote-directory configuration
  is total and never raises. The path of the file is computed by \<open>getConfigPath()\<close> before
  the \<open>try\<close> block, from \<open>os.homedir()\<close>; when that call raises because the home directory
  cannot be determined, \<open>loadRepositories\<close> raises the same error.
\<close>

theorem C10_never_raises_counterexample:
  "loadRepositories demo_parse False (Inl SystemError) (only_config (Content ''null''))
     = Inl SystemError"
  by (simp add: loadRepositories_def getConfigPath_def)

text \<open>
  C10 (amended): loading the remote-directory configuration raises exactly when
  \<open>os.homedir()\<close> raises, and then with the same error. Once the home directory is known
  it always returns a list: the empty list when the configuration file is absent, when
  it cannot be read, when its content is not parseable JSON, and when the parsed value
  has no \<open>repositories\<close> field holding an array; otherwise exactly the stored array.
\<close>

theorem C10_load_total:
  "(\<forall>e. homedir = Inl e \<longrightarrow> loadRepositories parse isWindows homedir fs = Inl e) \<and>
   (\<forall>h. homedir = Inr h \<longrightarrow>
      (let f = fs (path_join isWindows (path_join isWindows h ''.openskills'') ''repositories.json'');
           result = loadRepositories parse isWindows homedir fs
       in (\<exists>rs. result = Inr rs) \<and>
          (f = Missing \<longrightarrow> result = Inr []) \<and>
          (f = Unreadable \<longrightarrow> result = Inr []) \<and>
          (\<forall>c. f = Content c \<and> parse c = None \<longrightarrow> result = Inr []) \<and>
          (\<forall>c config. f = Content c \<and> parse c = Some config \<and> stored_repositories config = None
              \<longrightarrow> result = Inr []) \<and>
          (\<forall>c config xs. f = Content c \<and> parse c = Some config
              \<and> stored_repositories config = Some xs \<longrightarrow> result = Inr xs)))"
  by (auto simp: loadRepositories_def getConfigPath_def load_body_def existsSync_def
      readFileSync_def JSON_parse_def get_property_def stored_repositories_def Let_def
      split: file_state.splits option.splits json.splits sum.splits)

theorem C10_load_total_witness:
  "loadRepositories demo_parse False (Inl IOError) (only_config Missing) = Inl IOError \<and>
   loadRepositories demo_parse False (Inr ''/home/u'') (only_config Missing) = Inr [] \<and>
   loadRepositories demo_parse False (Inr ''/home/u'') (only_config Unreadable) = Inr [] \<and>
   demo_parse ''not json'' = None \<and>
   loadRepositories demo_parse False (Inr ''/home/u'') (only_config (Content ''not json'')) = Inr [] \<and>
   demo_parse ''{repositories:7}'' = Some (JObj [(''repositories'', JNum 7)]) \<and>
   stored_repositories (JObj [(''repositories'', JNum 7)]) = None \<and>
   loadRepositories demo_parse False (Inr ''/home/u'') (only_config (Content ''{repositories:7}''))
     = Inr [] \<and>
   demo_parse ''null'' = Some JNull \<and> stored_repositories JNull = None \<and>
   loadRepositories demo_parse False (Inr ''/home/u'') (only_config (Content ''null'')) = Inr [] \<and>
   demo_parse ''{repositories:[team]}'' = Some (JObj [(''repositories'', JArr [demo_repo])]) \<and>
   stored_repositories (JObj [(''repositories'', JArr [demo_repo])]) = Some [demo_repo] \<and>
   loadRepositories demo_parse False (Inr ''/home/u'')
     (only_config (Content ''{repositories:[team]}'')) = Inr [demo_repo]"
proof -
  have p1: "demo_parse ''not json'' = None" by (simp add: demo_parse_def)
  have p2: "demo_parse ''{repositories:7}'' = Some (JObj [(''repositories'', JNum 7)])"
    by (simp add: demo_parse_def)
  have p3: "demo_parse ''null'' = Some JNull" by (simp add: demo_parse_def)
  have p4: "demo_parse ''{repositories:[team]}'' = Some (JObj [(''repositories'', JArr [demo_repo])])"
    by (simp add: demo_parse_def)
  have s2: "stored_repositories (JObj [(''repositories'', JNum 7)]) = None"
    by (simp add: stored_repositories_def)
  have s3: "stored_repositories JNull = None" by (simp add: stored_repositories_def)
  have s4: "stored_repositories (JObj [(''repositories'', JArr [demo_repo])]) = Some [demo_repo]"
    by (simp add: stored_repositories_def)
  have f: "\<And>st. only_config st (path_join False (path_join False ''/home/u'' ''.openskills'')
      ''repositories.json'') = st"
    by (simp add: only_config_def path_join_def)
  note t = C10_load_total [where parse = demo_parse and isWindows = False
      and homedir = "Inr ''/home/u''", THEN conjunct2, rule_format, OF refl, unfolded Let_def]
  show ?thesis
    using p1 p2 p3 p4 s2 s3 s4
      C10_load_total [where parse = demo_parse and isWindows = False and homedir = "Inl IOError"
        and fs = "only_config Missing", THEN conjunct1]
      t [of "only_config Missing"] t [of "only_config Unreadable"]
      t [of "only_config (Content ''not json'')"]
      t [of "only_config (Content ''{repositories:7}'')"]
      t [of "only_config (Content ''null'')"]
      t [of "only_config (Content ''{repositories:[team]}'')"]
    by (simp add: f)
qed

section \<open>The removal loop as a whole\<close>


section \<open>Properties of runs\<close>

lemma snd_bnd: "snd (bnd m k) = (case snd m of Inl s \<Rightarrow> Inl s | Inr x \<Rightarrow> snd (k x))"
  by (cases m) (auto simp: bnd_def split: sum.splits prod.splits)

lemma fst_bnd: "fst (bnd m k) = (case snd m of Inl s \<Rightarrow> fst m | Inr x \<Rightarrow> fst m @ fst (k x))"
  by (cases m) (auto simp: bnd_def split: sum.splits prod.splits)

lemma snd_thn: "snd (thn m k) = (case snd m of Inl s \<Rightarrow> Inl s | Inr x \<Rightarrow> snd k)"
  by (simp add: thn_def snd_bnd)

lemma fst_thn: "fst (thn m k) = (case snd m of Inl s \<Rightarrow> fst m | Inr x \<Rightarrow> fst m @ fst k)"
  by (simp add: thn_def fst_bnd)

lemma snd_try_catch:
  "snd (try_catch m h) = (case snd m of Inl (Raise e) \<Rightarrow> snd (h e) | r \<Rightarrow> r)"
  by (cases m) (auto simp: try_catch_def split: sum.splits prod.splits stop.splits)

lemma fst_try_catch:
  "fst (try_catch m h) = (case snd m of Inl (Raise e) \<Rightarrow> fst m @ fst (h e) | r \<Rightarrow> fst m)"
  by (cases m) (auto simp: try_catch_def split: sum.splits prod.splits stop.splits)

lemma thn_goes_on: "snd m = Inr () \<Longrightarrow> thn m k = (fst m @ fst k, snd k)"
  by (cases m) (auto simp: thn_def bnd_def split: prod.splits)

lemma thn_stops: "snd m = Inl s \<Longrightarrow> thn m k = (fst m, Inl s)"
  by (cases m) (auto simp: thn_def bnd_def split: prod.splits)

lemma bnd_goes_on: "snd m = Inr x \<Longrightarrow> bnd m k = (fst m @ fst (k x), snd (k x))"
  by (cases m) (auto simp: bnd_def split: prod.splits)

lemma bnd_stops: "snd m = Inl s \<Longrightarrow> bnd m k = (fst m, Inl s)"
  by (cases m) (auto simp: bnd_def split: prod.splits)

named_theorems no_ret

named_theorems only_raise

lemma no_return_ret [no_ret]: "no_return (ret x)" by (simp add: no_return_def ret_def)

lemma no_return_emit [no_ret]: "no_return (emit es)" by (simp add: no_return_def emit_def)

lemma no_return_exit [no_ret]: "no_return (stop_with (Exit n))"
  by (simp add: no_return_def stop_with_def)

lemma no_return_raise [no_ret]: "no_return (stop_with (Raise e))"
  by (simp add: no_return_def stop_with_def)

lemma no_return_exec [no_ret]: "no_return (exec r c)"
  by (simp add: no_return_def exec_def split: exec_result.splits)

lemma no_return_fs_call [no_ret]: "no_return (fs_call ev r)"
  by (simp add: no_return_def fs_call_def split: option.splits)

lemma no_return_read_file [no_ret]: "no_return (read_file p r)"
  by (simp add: no_return_def read_file_def split: sum.splits)

lemma no_return_read_dir [no_ret]: "no_return (read_dir p r)"
  by (simp add: no_return_def read_dir_def split: sum.splits)

lemma no_return_probe [no_ret]: "no_return (probe p b)" by (simp add: no_return_def probe_def)

lemma no_return_lift [no_ret]: "no_return (lift p)" by (simp add: no_return_def lift_def)

lemma no_return_bnd [no_ret]: "no_return m \<Longrightarrow> (\<And>x. no_return (k x)) \<Longrightarrow> no_return (bnd m k)"
  by (auto simp: no_return_def snd_bnd split: sum.splits)

lemma no_return_thn [no_ret]: "no_return m \<Longrightarrow> no_return k \<Longrightarrow> no_return (thn m k)"
  by (auto simp: no_return_def snd_thn split: sum.splits)

lemma no_return_try [no_ret]:
  "no_return m \<Longrightarrow> (\<And>e. no_return (h e)) \<Longrightarrow> no_return (try_catch m h)"
  by (auto simp: no_return_def snd_try_catch split: sum.splits stop.splits)

lemma no_return_if [no_ret]: "no_return a \<Longrightarrow> no_return b \<Longrightarrow> no_return (if c then a else b)"
  by simp

lemma no_return_let [no_ret]: "(\<And>x. no_return (f x)) \<Longrightarrow> no_return (Let v f)"
  by simp

lemma raises_only_ret [only_raise]: "raises_only (ret x)" by (simp add: raises_only_def ret_def)

lemma raises_only_emit [only_raise]: "raises_only (emit es)"
  by (simp add: raises_only_def emit_def)

lemma raises_only_raise [only_raise]: "raises_only (stop_with (Raise e))"
  by (simp add: raises_only_def stop_with_def)

lemma raises_only_exec [only_raise]: "raises_only (exec r c)"
  by (simp add: raises_only_def exec_def split: exec_result.splits)

lemma raises_only_fs_call [only_raise]: "raises_only (fs_call ev r)"
  by (simp add: raises_only_def fs_call_def split: option.splits)

lemma raises_only_read_file [only_raise]: "raises_only (read_file p r)"
  by (simp add: raises_only_def read_file_def split: sum.splits)

lemma raises_only_read_dir [only_raise]: "raises_only (read_dir p r)"
  by (simp add: raises_only_def read_dir_def split: sum.splits)

lemma raises_only_probe [only_raise]: "raises_only (probe p b)"
  by (simp add: raises_only_def probe_def)

lemma raises_only_lift [only_raise]: "raises_only (lift p)" by (simp add: raises_only_def lift_def)

lemma raises_only_bnd [only_raise]:
  "raises_only m \<Longrightarrow> (\<And>x. raises_only (k x)) \<Longrightarrow> raises_only (bnd m k)"
  by (auto simp: raises_only_def snd_bnd split: sum.splits)

lemma raises_only_thn [only_raise]: "raises_only m \<Longrightarrow> raises_only k \<Longrightarrow> raises_only (thn m k)"
  by (auto simp: raises_only_def snd_thn split: sum.splits)

lemma raises_only_try [only_raise]:
  "raises_only m \<Longrightarrow> (\<And>e. raises_only (h e)) \<Longrightarrow> raises_only (try_catch m h)"
  by (auto simp: raises_only_def snd_try_catch split: sum.splits stop.splits)

lemma raises_only_if [only_raise]:
  "raises_only a \<Longrightarrow> raises_only b \<Longrightarrow> raises_only (if c then a else b)"
  by simp

lemma raises_only_let [only_raise]: "(\<And>x. raises_only (f x)) \<Longrightarrow> raises_only (Let v f)"
  by simp

lemma raises_only_no_return: "raises_only m \<Longrightarrow> no_return m"
  by (auto simp: raises_only_def no_return_def)

lemma raises_only_exec_unit [only_raise]: "raises_only (exec_unit r c)"
  unfolding exec_unit_def by (intro only_raise)

lemma raises_only_sanitize [only_raise]: "raises_only (sanitizeBranchName b)"
  unfolding sanitizeBranchName_def by (intro only_raise)

lemma raises_only_getCurrentBranch [only_raise]: "raises_only (getCurrentBranch r)"
  unfolding getCurrentBranch_def by (intro only_raise)

lemma raises_only_cleanup [only_raise]: "raises_only (cleanupSubmodule w ce d n)"
  unfolding cleanupSubmodule_def cleanup_gitmodules_def cleanup_config_def cleanup_modules_def
  by (intro only_raise)

lemma raises_only_note [only_raise]: "raises_only (note_unless_unknown w e)"
  unfolding note_unless_unknown_def by (intro only_raise)

lemma raises_only_remove_existing [only_raise]: "raises_only (remove_existing w se d t n)"
  unfolding remove_existing_def by (intro only_raise)

lemma raises_only_checkpoint [only_raise]: "raises_only (checkpoint_commit se)"
  unfolding checkpoint_commit_def by (intro only_raise)

lemma raises_only_copy_tree [only_raise]: "raises_only (copy_tree se a b)"
  by (auto simp: raises_only_def copy_tree_def split: prod.splits)

lemma removed_iff_gone: "snd (removeGitDirectory w sc p c) \<longleftrightarrow> git_dir_gone sc"
proof (cases "exists_at_entry sc")
  case False
  then show ?thesis by (simp add: removeGitDirectory_def git_dir_gone_def)
next
  case True
  have "snd (retry_loop (attempt_at sc) p 0) \<longleftrightarrow>
        (\<exists>j < MAX_RETRY_ATTEMPTS. attempt_at sc j = RmReturns False)"
    using retry_success_iff [of "attempt_at sc" p 0] by simp
  with True show ?thesis
    by (auto simp: removeGitDirectory_def git_dir_gone_def split_def Let_def list_ex_iff)
qed

lemma ensured_iff_gone: "snd (ensureGitDirectoryRemoved w sc d c) \<longleftrightarrow> git_dir_gone sc"
  by (simp add: ensureGitDirectoryRemoved_def removed_iff_gone)

lemma verify_copied_outcome:
  "snd (verify_copied w se t n) = (if verified se then Inr () else Inl (Exit 1))"
  by (simp add: verify_copied_def verified_def snd_bnd snd_thn lift_def ensured_iff_gone
      probe_def emit_def stop_with_def)

lemma verify_copied_report:
  "\<not> verified se \<Longrightarrow> failure_reported n (fst (verify_copied w se t n))"
  by (auto simp: verify_copied_def verified_def fst_bnd fst_thn snd_bnd lift_def ensured_iff_gone
      probe_def emit_def stop_with_def failure_reported_def)

lemma copy_body_cases:
  "snd (copy_body win se ld t sk) = Inr () \<and> verified se
   \<or> (\<exists>e. snd (copy_body win se ld t sk) = Inl (Raise e))
   \<or> snd (copy_body win se ld t sk) = Inl (Exit 1) \<and> \<not> verified se
       \<and> failure_reported (skill_name sk) (fst (copy_body win se ld t sk))"
proof -
  have a: "raises_only (remove_existing win se ld t (skill_name sk))"
    and b: "raises_only (checkpoint_commit se)"
    and c: "raises_only (fs_call (MkdirSync t) (mkdir_target se))"
    and d: "raises_only (copy_tree se (skill_baseDir sk) t)"
    by (intro only_raise)+
  show ?thesis
    using a b c d verify_copied_report [of se "skill_name sk" win t]
    unfolding copy_body_def raises_only_def
    by (auto simp: snd_bnd snd_thn fst_bnd fst_thn probe_def ret_def verify_copied_outcome
        failure_reported_def split: sum.splits if_splits)
qed

lemma copy_skill_cases:
  "snd (copy_skill win se ld t sk) = Inr () \<and> verified se
   \<or> snd (copy_skill win se ld t sk) = Inl (Exit 1)
       \<and> failure_reported (skill_name sk) (fst (copy_skill win se ld t sk))"
  using copy_body_cases [of win se ld t sk]
  unfolding copy_skill_def
  by (auto simp: snd_thn fst_thn snd_try_catch fst_try_catch emit_def stop_with_def
      failure_reported_def split: sum.splits stop.splits)


lemma no_return_copy_skill [no_ret]: "no_return (copy_skill win se ld t sk)"
  using copy_skill_cases [of win se ld t sk] by (auto simp: no_return_def)

lemma no_return_confirm [no_ret]: "no_return (confirm_overwrite se n)"
  unfolding confirm_overwrite_def
  by (cases "confirm_reply se") (auto intro!: no_ret)

lemma no_return_process_skill [no_ret]: "no_return (process_skill options ev sd ld i sk)"
  unfolding process_skill_def by (intro no_ret)

lemma no_return_copy_skills [no_ret]: "no_return (copy_skills options ev sd ld i sks)"
  by (induction sks arbitrary: i) (auto intro!: no_ret)

lemma process_skill_ok:
  assumes "snd (process_skill options ev sd ld i sk) = Inr ()"
  shows "isValidSkillName (skill_name sk)"
    and "was_copied options (per_skill ev i) \<Longrightarrow> verified (per_skill ev i)"
proof -
  show v: "isValidSkillName (skill_name sk)"
    using assms
    by (auto simp: process_skill_def snd_thn emit_def stop_with_def split: if_splits)
  assume c: "was_copied options (per_skill ev i)"
  let ?t = "path_join (is_win32 ev) sd (skill_name sk)"
  have go: "snd (copy_skill (is_win32 ev) (per_skill ev i) ld ?t sk) = Inr ()"
    using assms v c
    by (cases "confirm_reply (per_skill ev i)")
       (auto simp: process_skill_def was_copied_def snd_bnd snd_thn probe_def ret_def Let_def
          confirm_overwrite_def emit_def stop_with_def split: if_splits sum.splits)
  then show "verified (per_skill ev i)"
    using copy_skill_cases [of "is_win32 ev" "per_skill ev i" ld ?t sk] by auto
qed

lemma copy_skills_ok:
  "snd (copy_skills options ev sd ld i sks) = Inr () \<Longrightarrow> k < length sks \<Longrightarrow>
   isValidSkillName (skill_name (sks ! k)) \<and>
   (was_copied options (per_skill ev (i + k)) \<longrightarrow> verified (per_skill ev (i + k)))"
proof (induction sks arbitrary: i k)
  case Nil
  then show ?case by simp
next
  case (Cons sk rest)
  from Cons.prems(1) have one: "snd (process_skill options ev sd ld i sk) = Inr ()"
    and more: "snd (copy_skills options ev sd ld (Suc i) rest) = Inr ()"
    by (auto simp: snd_thn split: sum.splits)
  show ?case
  proof (cases k)
    case 0
    with process_skill_ok [OF one] show ?thesis by simp
  next
    case (Suc k')
    with Cons.prems(2) have "k' < length rest" by simp
    from Cons.IH [OF more this] Suc show ?thesis by simp
  qed
qed

lemma copy_skills_append:
  "snd (copy_skills options ev sd ld i pre) = Inr () \<Longrightarrow>
   copy_skills options ev sd ld i (pre @ rest) =
     (fst (copy_skills options ev sd ld i pre)
        @ fst (copy_skills options ev sd ld (i + length pre) rest),
      snd (copy_skills options ev sd ld (i + length pre) rest))"
proof (induction pre arbitrary: i)
  case Nil
  then show ?case by (simp add: ret_def)
next
  case (Cons sk pre)
  from Cons.prems have one: "snd (process_skill options ev sd ld i sk) = Inr ()"
    and more: "snd (copy_skills options ev sd ld (Suc i) pre) = Inr ()"
    by (auto simp: snd_thn split: sum.splits)
  show ?case
    using Cons.IH [OF more] one by (simp add: thn_goes_on)
qed

lemma copy_skills_invalid:
  "\<exists>sk \<in> set sks. \<not> isValidSkillName (skill_name sk) \<Longrightarrow>
   \<exists>s. snd (copy_skills options ev sd ld i sks) = Inl s \<and> s \<noteq> Return"
proof -
  assume "\<exists>sk \<in> set sks. \<not> isValidSkillName (skill_name sk)"
  then obtain k where k: "k < length sks" "\<not> isValidSkillName (skill_name (sks ! k))"
    by (auto simp: in_set_conv_nth)
  have "snd (copy_skills options ev sd ld i sks) \<noteq> Inr ()"
    using copy_skills_ok [of options ev sd ld i sks k] k by auto
  moreover have "snd (copy_skills options ev sd ld i sks) \<noteq> Inl Return"
    using no_return_copy_skills [of options ev sd ld i sks] by (simp add: no_return_def)
  ultimately show ?thesis
    by (cases "snd (copy_skills options ev sd ld i sks)") auto
qed

lemma no_return_ensure_all [no_ret]: "no_return (ensure_all ev ld i sks)"
  by (induction sks arbitrary: i) (auto intro!: no_ret)


lemma no_return_add_skills [no_ret]: "no_return (add_skills ev ld i sks)"
  by (induction sks arbitrary: i) (auto simp: Let_def exec_unit_def intro!: no_ret)


lemma no_return_stage_skills [no_ret]: "no_return (stage_skills ev ld sks)"
  unfolding stage_skills_def exec_unit_def by (intro no_ret)


lemma raises_only_pull_loop [only_raise]: "raises_only (pull_loop ev j bs)"
  by (induction bs arbitrary: j) (auto intro!: only_raise)

lemma raises_only_update [only_raise]: "raises_only (update_repository ev)"
  unfolding update_repository_def by (intro only_raise)

lemma no_return_prepare [no_ret]: "no_return (prepare_repository ev url n)"
  unfolding prepare_repository_def clone_repository_def exec_unit_def
  by (intro no_ret raises_only_no_return [OF raises_only_update])

lemma completed_thn:
  "no_return m \<Longrightarrow> completed (thn m k) \<Longrightarrow> snd m = Inr () \<and> completed k"
  by (cases "snd m") (auto simp: completed_def no_return_def snd_thn)

text \<open>When the whole run has completed, every stage before the check for changes has gone
  on to the next.\<close>

lemma completed_upload:
  assumes "completed (uploadToRepository ev skills url n options)"
  shows "isValidRepoName n" "isValidGitUrl url"
    and "snd (prepare_repository ev url n) = Inr ()"
    and "snd (copy_skills options ev (skillsDir_of ev n) (localRepoDir_of ev n) 0 skills) = Inr ()"
    and "snd (ensure_all ev (localRepoDir_of ev n) 0 skills) = Inr ()"
    and "snd (stage_skills ev (localRepoDir_of ev n) skills) = Inr ()"
proof -
  show v1: "isValidRepoName n"
    using assms
    by (auto simp: completed_def uploadToRepository_def snd_thn emit_def stop_with_def
        split: if_splits)
  show v2: "isValidGitUrl url"
    using assms
    by (auto simp: completed_def uploadToRepository_def snd_thn emit_def stop_with_def
        split: if_splits)
  let ?ld = "localRepoDir_of ev n"
  let ?rest2 = "stage_and_publish ev options ?ld skills"
  let ?rest1 = "thn (copy_skills options ev (skillsDir_of ev n) ?ld 0 skills) ?rest2"
  from assms v1 v2 have c0: "completed (thn (prepare_repository ev url n) ?rest1)"
    by (simp add: uploadToRepository_def)
  from completed_thn [OF no_return_prepare c0]
  have p: "snd (prepare_repository ev url n) = Inr () \<and> completed ?rest1" .
  then show "snd (prepare_repository ev url n) = Inr ()" by simp
  from p have c1: "completed ?rest1" by simp
  from completed_thn [OF no_return_copy_skills c1]
  have q: "snd (copy_skills options ev (skillsDir_of ev n) ?ld 0 skills) = Inr ()
      \<and> completed ?rest2" .
  then show "snd (copy_skills options ev (skillsDir_of ev n) ?ld 0 skills) = Inr ()" by simp
  let ?rest3 = "thn (stage_skills ev ?ld skills)
      (commit_and_push ev (commit_message options skills) (map skill_name skills))"
  from q have c2': "completed (thn (ensure_all ev ?ld 0 skills) ?rest3)"
    by (simp add: stage_and_publish_def)
  from completed_thn [OF no_return_ensure_all c2']
  have r: "snd (ensure_all ev ?ld 0 skills) = Inr () \<and> completed ?rest3" .
  then show "snd (ensure_all ev ?ld 0 skills) = Inr ()" by simp
  from r have c3: "completed ?rest3" by simp
  from completed_thn [OF no_return_stage_skills c3]
  show "snd (stage_skills ev ?ld skills) = Inr ()" by simp
qed

section \<open>Evaluation on concrete inputs\<close>

lemmas run_defs = ret_def emit_def stop_with_def bnd_def thn_def try_catch_def exec_def
  exec_unit_def fs_call_def read_file_def read_dir_def probe_def lift_def or_else_def
  err_text_def msg_or_unknown_def dump_buffer_def dump_string_def Let_def split_def

lemmas pipeline_defs = uploadToRepository_def prepare_repository_def clone_repository_def
  update_repository_def process_skill_def copy_skill_def copy_body_def remove_existing_def
  checkpoint_commit_def copy_tree_def verify_copied_def confirm_overwrite_def
  note_unless_unknown_def cleanupSubmodule_def cleanup_gitmodules_def cleanup_config_def
  cleanup_modules_def stage_and_publish_def stage_skills_def commit_and_push_def
  check_changes_def commit_changes_def commit_error_details_def pushToRemote_def
  push_hint_def push_failure_report_def push_success_report_def commit_message_def
  getCurrentBranch_def sanitizeBranchName_def ensureGitDirectoryRemoved_def
  removeGitDirectory_def reposDir_of_def localRepoDir_of_def skillsDir_of_def
  path_join_def last_segment_def

lemmas string_defs = isValidRepoName_def isValidGitUrl_def isValidSkillName_def
  isValidBranchName_def name_class_def branch_class_def validProtocols_def dangerousChars_def
  trim_def is_space_def toLowerCase_def lower_char_def escapeGitPath_def
  escapeCommitMessage_def replace_all_def isGitRelatedFile_def GIT_SUBMODULE_MODE_def
  DEFAULT_BRANCHES_def

lemmas demo_defs = fresh_remote_def new_bundle_def idle_cleanup_def no_git_dir_def
  git_failure_def demo_def plain_def team_url_def demo_tree_def

lemma upload_reaches_check:
  assumes "reaches_check ev skills repoUrl repoName options"
  shows "uploadToRepository ev skills repoUrl repoName options =
     (trace_to_check ev skills repoUrl repoName options
      @ fst (commit_and_push ev (commit_message options skills) (map skill_name skills)),
      snd (commit_and_push ev (commit_message options skills) (map skill_name skills)))"
  using assms
  by (simp add: reaches_check_def trace_to_check_def uploadToRepository_def
      stage_and_publish_def thn_goes_on)

lemma check_changes_nothing:
  assumes "git_status ev = ExecOk out" "trim out = []"
  shows "snd (check_changes ev) = Inl Return"
    and "execs (fst (check_changes ev)) = [''git status --porcelain'', ''git ls-files skills/'']"
    and "Spin ''No changes to commit'' \<in> set (fst (check_changes ev))"
  using assms
  by (auto simp: check_changes_def run_defs split: exec_result.splits)

lemma check_changes_something:
  assumes "git_status ev = ExecOk out" "trim out \<noteq> []"
  shows "check_changes ev =
     ([Spin ''Checking for changes...'', Exec ''git status --porcelain'', Spin ''Changes detected''],
      Inr ())"
  using assms by (auto simp: check_changes_def run_defs)

lemma commit_nothing_to_commit:
  assumes "git_commit ev = ExecFail e"
    and "includes_str (toLowerCase (err_text e)) ''nothing to commit''
         \<or> includes_str (toLowerCase (err_text e)) ''nothing added to commit''"
  shows "snd (commit_changes ev msg) = Inl Return"
    and "execs (fst (commit_changes ev msg)) = [''git commit -m '' @ [DQ] @ escapeCommitMessage msg @ [DQ]]"
    and "Log ([LF] @ ''No changes to commit. Skills are already up to date.'')
           \<in> set (fst (commit_changes ev msg))"
  using assms
  by (auto simp: commit_changes_def thn_def bnd_def try_catch_def exec_def emit_def ret_def
      stop_with_def commit_error_details_def Let_def split: option.splits)

text \<open>
  C6: when the run has come to the check for changes and the working copy reports none
  (the output of \<open>git status --porcelain\<close> is empty after trimming), the publish
  completes successfully; after staging it has run the status command and the listing of
  the index and nothing else, so no commit and no push, and it has printed \<open>No changes
  to commit\<close>. When there are changes and the commit fails with a diagnostic text that
  contains, in lower case, \<open>nothing to commit\<close> or \<open>nothing added to commit\<close>, the publish
  completes successfully as well; after staging it has run the status command and the
  commit command and nothing else, so no push, and it has printed the no-changes message.
\<close>

theorem C6_no_changes:
  assumes "reaches_check ev skills repoUrl repoName options"
  shows
   "(\<forall>out. git_status ev = ExecOk out \<and> trim out = [] \<longrightarrow>
       completed (uploadToRepository ev skills repoUrl repoName options) \<and>
       (\<exists>after. fst (uploadToRepository ev skills repoUrl repoName options)
                 = trace_to_check ev skills repoUrl repoName options @ after \<and>
               execs after = [''git status --porcelain'', ''git ls-files skills/''] \<and>
               Spin ''No changes to commit'' \<in> set after)) \<and>
    (\<forall>out e. git_status ev = ExecOk out \<and> trim out \<noteq> [] \<and> git_commit ev = ExecFail e \<and>
        (includes_str (toLowerCase (err_text e)) ''nothing to commit''
         \<or> includes_str (toLowerCase (err_text e)) ''nothing added to commit'') \<longrightarrow>
       completed (uploadToRepository ev skills repoUrl repoName options) \<and>
       (\<exists>after. fst (uploadToRepository ev skills repoUrl repoName options)
                 = trace_to_check ev skills repoUrl repoName options @ after \<and>
               execs after = [''git status --porcelain'',
                 ''git commit -m '' @ [DQ] @ escapeCommitMessage (commit_message options skills) @ [DQ]] \<and>
               Log ([LF] @ ''No changes to commit. Skills are already up to date.'') \<in> set after))"
proof (intro conjI allI impI)
  fix out assume a: "git_status ev = ExecOk out \<and> trim out = []"
  let ?cp = "commit_and_push ev (commit_message options skills) (map skill_name skills)"
  from a have s: "snd (check_changes ev) = Inl Return"
    and x: "execs (fst (check_changes ev)) = [''git status --porcelain'', ''git ls-files skills/'']"
    and n: "Spin ''No changes to commit'' \<in> set (fst (check_changes ev))"
    using check_changes_nothing [of ev out] by blast+
  from s have cp: "?cp = (fst (check_changes ev), Inl Return)"
    by (simp add: commit_and_push_def thn_stops)
  show "completed (uploadToRepository ev skills repoUrl repoName options)"
    using upload_reaches_check [OF assms] cp by (simp add: completed_def)
  show "\<exists>after. fst (uploadToRepository ev skills repoUrl repoName options)
                 = trace_to_check ev skills repoUrl repoName options @ after \<and>
               execs after = [''git status --porcelain'', ''git ls-files skills/''] \<and>
               Spin ''No changes to commit'' \<in> set after"
    using upload_reaches_check [OF assms] cp x n by simp
next
  fix out e
  assume a: "git_status ev = ExecOk out \<and> trim out \<noteq> [] \<and> git_commit ev = ExecFail e \<and>
        (includes_str (toLowerCase (err_text e)) ''nothing to commit''
         \<or> includes_str (toLowerCase (err_text e)) ''nothing added to commit'')"
  let ?msg = "commit_message options skills"
  let ?cp = "commit_and_push ev ?msg (map skill_name skills)"
  from a have c: "check_changes ev =
     ([Spin ''Checking for changes...'', Exec ''git status --porcelain'', Spin ''Changes detected''],
      Inr ())"
    using check_changes_something [of ev out] by blast
  from a have s: "snd (commit_changes ev ?msg) = Inl Return"
    and x: "execs (fst (commit_changes ev ?msg))
             = [''git commit -m '' @ [DQ] @ escapeCommitMessage ?msg @ [DQ]]"
    and n: "Log ([LF] @ ''No changes to commit. Skills are already up to date.'')
           \<in> set (fst (commit_changes ev ?msg))"
    using commit_nothing_to_commit [of ev e ?msg] by blast+
  from c s have cp: "?cp = ([Spin ''Checking for changes...'', Exec ''git status --porcelain'',
       Spin ''Changes detected''] @ fst (commit_changes ev ?msg), Inl Return)"
    by (simp add: commit_and_push_def thn_goes_on thn_stops)
  show "completed (uploadToRepository ev skills repoUrl repoName options)"
    using upload_reaches_check [OF assms] cp by (simp add: completed_def)
  show "\<exists>after. fst (uploadToRepository ev skills repoUrl repoName options)
                 = trace_to_check ev skills repoUrl repoName options @ after \<and>
               execs after = [''git status --porcelain'',
                 ''git commit -m '' @ [DQ] @ escapeCommitMessage ?msg @ [DQ]] \<and>
               Log ([LF] @ ''No changes to commit. Skills are already up to date.'') \<in> set after"
    using upload_reaches_check [OF assms] cp x n by simp
qed

lemma fresh_reaches_check:
  "reaches_check \<lparr>home = ''/home/u'', is_win32 = False, repo_exists = False, mkdir_repos = None,
     git_clone = ExecOk [], git_fetch = ExecOk [], rev_parse_pull = ExecOk ''main'',
     git_pull = (\<lambda>j. ExecOk []), mkdir_skills = None, per_skill = (\<lambda>i. new_bundle),
     git_add_all = ExecOk [], git_status = st,
     git_ls_files = ExecOk [], git_commit = cm,
     remote_url = ExecOk ''git@example.com:team/skills.git'', rev_parse_push = ExecOk ''main'',
     git_push = (\<lambda>j. ExecOk [])\<rparr> [demo] team_url ''team'' plain"
  by (simp add: reaches_check_def pipeline_defs run_defs string_defs
      new_bundle_def idle_cleanup_def no_git_dir_def git_failure_def demo_def plain_def
      team_url_def demo_tree_def)

theorem C6_no_changes_witness:
  "reaches_check up_to_date [demo] team_url ''team'' plain \<and>
   git_status up_to_date = ExecOk [LF] \<and> trim [LF] = [] \<and>
   completed (uploadToRepository up_to_date [demo] team_url ''team'' plain) \<and>
   reaches_check nothing_staged [demo] team_url ''team'' plain \<and>
   git_status nothing_staged = ExecOk ''A  skills/demo/SKILL.md'' \<and>
   includes_str (toLowerCase ''On branch main. Nothing to commit, working tree clean'')
     ''nothing to commit'' \<and>
   completed (uploadToRepository nothing_staged [demo] team_url ''team'' plain)"
proof -
  have r1: "reaches_check up_to_date [demo] team_url ''team'' plain"
    unfolding up_to_date_def by (simp add: fresh_remote_def fresh_reaches_check)
  have r2: "reaches_check nothing_staged [demo] team_url ''team'' plain"
    unfolding nothing_staged_def by (simp add: fresh_remote_def fresh_reaches_check)
  have s1: "git_status up_to_date = ExecOk [LF] \<and> trim [LF] = []"
    by (simp add: up_to_date_def fresh_remote_def trim_def is_space_def)
  have s2: "git_status nothing_staged = ExecOk ''A  skills/demo/SKILL.md'' \<and>
      trim ''A  skills/demo/SKILL.md'' \<noteq> [] \<and>
      git_commit nothing_staged = ExecFail
       \<lparr>err_stderr = Some [], err_stdout = Some ''On branch main. Nothing to commit, working tree clean'',
        err_message = Some ''Command failed: git commit''\<rparr>"
    by (simp add: nothing_staged_def fresh_remote_def trim_def is_space_def)
  have t: "err_text \<lparr>err_stderr = Some [], err_stdout = Some ''On branch main. Nothing to commit, working tree clean'',
        err_message = Some ''Command failed: git commit''\<rparr>
        = ''On branch main. Nothing to commit, working tree clean''"
    by (simp add: err_text_def or_else_def)
  have i: "includes_str (toLowerCase ''On branch main. Nothing to commit, working tree clean'')
     ''nothing to commit''"
    by (simp add: toLowerCase_def lower_char_def char_of_def bit_iff_odd)
  have c1: "completed (uploadToRepository up_to_date [demo] team_url ''team'' plain)"
    using C6_no_changes [OF r1, THEN conjunct1, rule_format, of "[LF]"] s1 by blast
  have c2: "completed (uploadToRepository nothing_staged [demo] team_url ''team'' plain)"
    using C6_no_changes [OF r2, THEN conjunct2, rule_format, of "''A  skills/demo/SKILL.md''"
        "\<lparr>err_stderr = Some [],
          err_stdout = Some ''On branch main. Nothing to commit, working tree clean'',
          err_message = Some ''Command failed: git commit''\<rparr>"] s2 i
    unfolding t by blast
  show ?thesis using r1 r2 s1 s2 i c1 c2 by blast
qed

lemma upload_at_bundle:
  assumes "reaches_bundle ev options earlier repoUrl repoName"
  shows "uploadToRepository ev (earlier @ sk # rest) repoUrl repoName options =
     (trace_to_bundle ev options earlier repoUrl repoName
        @ fst (thn (process_skill options ev (skillsDir_of ev repoName)
                      (localRepoDir_of ev repoName) (length earlier) sk)
                   (rest_of_run ev options repoName (length earlier) rest (earlier @ sk # rest))),
      snd (thn (process_skill options ev (skillsDir_of ev repoName)
                  (localRepoDir_of ev repoName) (length earlier) sk)
               (rest_of_run ev options repoName (length earlier) rest (earlier @ sk # rest))))"
proof -
  let ?sd = "skillsDir_of ev repoName" and ?ld = "localRepoDir_of ev repoName"
  let ?P = "process_skill options ev ?sd ?ld (length earlier) sk"
  let ?R = "copy_skills options ev ?sd ?ld (Suc (length earlier)) rest"
  let ?S = "stage_and_publish ev options ?ld (earlier @ sk # rest)"
  from assms have e: "snd (copy_skills options ev ?sd ?ld 0 earlier) = Inr ()"
    by (simp add: reaches_bundle_def)
  have loop: "copy_skills options ev ?sd ?ld 0 (earlier @ sk # rest) =
      (fst (copy_skills options ev ?sd ?ld 0 earlier) @ fst (thn ?P ?R), snd (thn ?P ?R))"
    using copy_skills_append [OF e, of "sk # rest"] by simp
  have assoc: "thn (thn ?P ?R) ?S = thn ?P (thn ?R ?S)"
    by (cases ?P; cases ?R; cases ?S) (auto simp: thn_def bnd_def split: sum.splits)
  have "thn (copy_skills options ev ?sd ?ld 0 (earlier @ sk # rest)) ?S =
      (fst (copy_skills options ev ?sd ?ld 0 earlier) @ fst (thn ?P (thn ?R ?S)),
       snd (thn ?P (thn ?R ?S)))"
    unfolding loop assoc [symmetric]
    by (cases "thn ?P ?R"; cases ?S) (auto simp: thn_def bnd_def split: sum.splits)
  with assms show ?thesis
    by (simp add: uploadToRepository_def reaches_bundle_def trace_to_bundle_def rest_of_run_def
        thn_goes_on)
qed

lemma process_skill_declined:
  assumes "isValidSkillName (skill_name sk)" "target_exists (per_skill ev i)" "\<not> opt_yes options"
    and "confirm_reply (per_skill ev i) = Declined"
  shows "process_skill options ev sd ld i sk =
     ([ExistsSync (path_join (is_win32 ev) sd (skill_name sk)) True,
       Confirm (''Skill '' @ [SQ] @ skill_name sk @ [SQ] @ '' already exists in repository. Overwrite?''),
       Log (''Skipped: '' @ skill_name sk)], Inr ())"
  using assms by (simp add: process_skill_def confirm_overwrite_def run_defs)

lemma process_skill_interrupted:
  assumes "isValidSkillName (skill_name sk)" "target_exists (per_skill ev i)" "\<not> opt_yes options"
    and "confirm_reply (per_skill ev i) = Interrupted"
  shows "process_skill options ev sd ld i sk =
     ([ExistsSync (path_join (is_win32 ev) sd (skill_name sk)) True,
       Confirm (''Skill '' @ [SQ] @ skill_name sk @ [SQ] @ '' already exists in repository. Overwrite?''),
       Log ([LF] @ ''Cancelled by user'')], Inl (Exit 0))"
  using assms by (simp add: process_skill_def confirm_overwrite_def run_defs)

lemma process_skill_invalid:
  assumes "\<not> isValidSkillName (skill_name sk)"
  shows "process_skill options ev sd ld i sk =
     ([Log (''Error: Invalid skill name '' @ [SQ] @ skill_name sk @ [SQ]
         @ ''. Skill names can only contain letters, numbers, dots, hyphens, and underscores.'')],
      Inl (Exit 1))"
  using assms by (simp add: process_skill_def run_defs)

text \<open>
  C8: let the run have come to a bundle of a valid name whose target exists, with
  confirmations not skipped. When the overwrite is declined, the bundle costs three
  effects, the existence check, the prompt and the message \<open>Skipped\<close>, and the run goes on
  with the remaining bundles and then with the stages after the loop. When the prompt is
  interrupted, the run ends there with the exit status 0 after the message \<open>Cancelled by
  user\<close>: what the earlier iterations have done, their commits among it, is the trace
  before the prompt, and nothing follows that could undo it.
\<close>

theorem C8_decline_and_interrupt:
  assumes "reaches_bundle ev options earlier repoUrl repoName"
    and "isValidSkillName (skill_name sk)"
    and "target_exists (per_skill ev (length earlier))"
    and "\<not> opt_yes options"
  shows
   "(confirm_reply (per_skill ev (length earlier)) = Declined \<longrightarrow>
       uploadToRepository ev (earlier @ sk # rest) repoUrl repoName options =
         (trace_to_bundle ev options earlier repoUrl repoName
          @ [ExistsSync (path_join (is_win32 ev) (skillsDir_of ev repoName) (skill_name sk)) True,
             Confirm (''Skill '' @ [SQ] @ skill_name sk @ [SQ]
                      @ '' already exists in repository. Overwrite?''),
             Log (''Skipped: '' @ skill_name sk)]
          @ fst (rest_of_run ev options repoName (length earlier) rest (earlier @ sk # rest)),
          snd (rest_of_run ev options repoName (length earlier) rest (earlier @ sk # rest)))) \<and>
    (confirm_reply (per_skill ev (length earlier)) = Interrupted \<longrightarrow>
       uploadToRepository ev (earlier @ sk # rest) repoUrl repoName options =
         (trace_to_bundle ev options earlier repoUrl repoName
          @ [ExistsSync (path_join (is_win32 ev) (skillsDir_of ev repoName) (skill_name sk)) True,
             Confirm (''Skill '' @ [SQ] @ skill_name sk @ [SQ]
                      @ '' already exists in repository. Overwrite?''),
             Log ([LF] @ ''Cancelled by user'')],
          Inl (Exit 0)))"
proof (intro conjI impI)
  assume d: "confirm_reply (per_skill ev (length earlier)) = Declined"
  show "uploadToRepository ev (earlier @ sk # rest) repoUrl repoName options =
         (trace_to_bundle ev options earlier repoUrl repoName
          @ [ExistsSync (path_join (is_win32 ev) (skillsDir_of ev repoName) (skill_name sk)) True,
             Confirm (''Skill '' @ [SQ] @ skill_name sk @ [SQ]
                      @ '' already exists in repository. Overwrite?''),
             Log (''Skipped: '' @ skill_name sk)]
          @ fst (rest_of_run ev options repoName (length earlier) rest (earlier @ sk # rest)),
          snd (rest_of_run ev options repoName (length earlier) rest (earlier @ sk # rest)))"
    unfolding upload_at_bundle [OF assms(1)] process_skill_declined [OF assms(2-4) d]
    by (simp add: thn_goes_on)
next
  assume i: "confirm_reply (per_skill ev (length earlier)) = Interrupted"
  show "uploadToRepository ev (earlier @ sk # rest) repoUrl repoName options =
         (trace_to_bundle ev options earlier repoUrl repoName
          @ [ExistsSync (path_join (is_win32 ev) (skillsDir_of ev repoName) (skill_name sk)) True,
             Confirm (''Skill '' @ [SQ] @ skill_name sk @ [SQ]
                      @ '' already exists in repository. Overwrite?''),
             Log ([LF] @ ''Cancelled by user'')],
          Inl (Exit 0))"
    unfolding upload_at_bundle [OF assms(1)] process_skill_interrupted [OF assms(2-4) i]
    by (simp add: thn_stops)
qed

text \<open>
  C3 (amended): a repository name or a URL that fails validation aborts the publish with
  the exit status 1 and one error message, before any external process is invoked. A
  bundle name that fails validation aborts the publish with the exit status 1 and an error
  message at the turn of that bundle in the loop, before the name is used in any path or
  command: the working copy has been cloned or updated by then and the earlier bundles
  have been handled. Whatever else happens, a publish with a bundle of an invalid name
  never completes successfully, so no bundle is skipped silently for its name.
\<close>

theorem C3_validation_aborts:
  "(\<not> isValidRepoName repoName \<or> \<not> isValidGitUrl repoUrl \<longrightarrow>
      snd (uploadToRepository ev skills repoUrl repoName options) = Inl (Exit 1) \<and>
      execs (fst (uploadToRepository ev skills repoUrl repoName options)) = [] \<and>
      (\<exists>msg. fst (uploadToRepository ev skills repoUrl repoName options) = [Log msg])) \<and>
   (reaches_bundle ev options earlier repoUrl repoName \<and> \<not> isValidSkillName (skill_name sk) \<longrightarrow>
      uploadToRepository ev (earlier @ sk # rest) repoUrl repoName options =
        (trace_to_bundle ev options earlier repoUrl repoName
         @ [Log (''Error: Invalid skill name '' @ [SQ] @ skill_name sk @ [SQ]
              @ ''. Skill names can only contain letters, numbers, dots, hyphens, and underscores.'')],
         Inl (Exit 1))) \<and>
   ((\<exists>s \<in> set skills. \<not> isValidSkillName (skill_name s)) \<longrightarrow>
      \<not> completed (uploadToRepository ev skills repoUrl repoName options))"
proof (intro conjI impI)
  assume "\<not> isValidRepoName repoName \<or> \<not> isValidGitUrl repoUrl"
  then show "snd (uploadToRepository ev skills repoUrl repoName options) = Inl (Exit 1)"
    and "execs (fst (uploadToRepository ev skills repoUrl repoName options)) = []"
    and "\<exists>msg. fst (uploadToRepository ev skills repoUrl repoName options) = [Log msg]"
    by (auto simp: uploadToRepository_def run_defs)
next
  assume a: "reaches_bundle ev options earlier repoUrl repoName \<and> \<not> isValidSkillName (skill_name sk)"
  then have r: "reaches_bundle ev options earlier repoUrl repoName"
    and n: "\<not> isValidSkillName (skill_name sk)" by simp_all
  show "uploadToRepository ev (earlier @ sk # rest) repoUrl repoName options =
        (trace_to_bundle ev options earlier repoUrl repoName
         @ [Log (''Error: Invalid skill name '' @ [SQ] @ skill_name sk @ [SQ]
              @ ''. Skill names can only contain letters, numbers, dots, hyphens, and underscores.'')],
         Inl (Exit 1))"
    unfolding upload_at_bundle [OF r] process_skill_invalid [OF n]
    by (simp add: thn_stops)
next
  assume inv: "\<exists>s \<in> set skills. \<not> isValidSkillName (skill_name s)"
  show "\<not> completed (uploadToRepository ev skills repoUrl repoName options)"
  proof
    assume c: "completed (uploadToRepository ev skills repoUrl repoName options)"
    from completed_upload(4) [OF c]
      copy_skills_invalid [OF inv, of options ev "skillsDir_of ev repoName"
        "localRepoDir_of ev repoName" 0]
    show False by auto
  qed
qed






lemmas more_demo_defs = unnamed_def pdf_def replaced_submodule_def existing_clone_def
  lost_entry_def


text \<open>
  C3 (as stated, refuted): the claim says that a bundle name that fails validation aborts
  the publish before any external version-control process is invoked. The names of the
  bundles are validated inside the loop: with a repository that is not yet cloned and one
  bundle of the invalid name \<open>bad name\<close>, the publish runs \<open>git clone\<close> and then aborts.
\<close>

theorem C3_before_any_process_counterexample:
  "\<not> isValidSkillName (skill_name unnamed) \<and>
   execs (fst (uploadToRepository fresh_remote [unnamed] team_url ''team'' plain)) =
     [''git clone '' @ [DQ] @ ''git@example.com:team/skills.git'' @ [DQ] @ '' '' @ [DQ]
        @ ''/home/u/.openskills/repos/team'' @ [DQ]] \<and>
   snd (uploadToRepository fresh_remote [unnamed] team_url ''team'' plain) = Inl (Exit 1)"
  by (simp add: pipeline_defs run_defs string_defs demo_defs more_demo_defs)

lemma fresh_reaches_second:
  "reaches_bundle fresh_remote plain [demo] team_url ''team''"
  by (simp add: reaches_bundle_def pipeline_defs run_defs string_defs demo_defs)

theorem C3_validation_aborts_witness:
  "\<not> isValidRepoName ''../team'' \<and>
   snd (uploadToRepository fresh_remote [demo] team_url ''../team'' plain) = Inl (Exit 1) \<and>
   execs (fst (uploadToRepository fresh_remote [demo] team_url ''../team'' plain)) = [] \<and>
   reaches_bundle fresh_remote plain [demo] team_url ''team'' \<and>
   \<not> isValidSkillName (skill_name unnamed) \<and>
   snd (uploadToRepository fresh_remote ([demo] @ unnamed # [pdf]) team_url ''team'' plain)
     = Inl (Exit 1) \<and>
   \<not> completed (uploadToRepository fresh_remote [demo, unnamed, pdf] team_url ''team'' plain)"
proof -
  have a: "\<not> isValidRepoName ''../team''" by (simp add: string_defs)
  have b: "\<not> isValidSkillName (skill_name unnamed)" by (simp add: string_defs unnamed_def)
  have c: "\<exists>s \<in> set [demo, unnamed, pdf]. \<not> isValidSkillName (skill_name s)"
    using b by simp
  have one: "snd (uploadToRepository fresh_remote [demo] team_url ''../team'' plain) = Inl (Exit 1)
      \<and> execs (fst (uploadToRepository fresh_remote [demo] team_url ''../team'' plain)) = []"
    using a C3_validation_aborts [where repoName = "''../team''" and repoUrl = team_url
        and ev = fresh_remote and skills = "[demo]" and options = plain,
        THEN conjunct1]
    by blast
  have two: "snd (uploadToRepository fresh_remote ([demo] @ unnamed # [pdf]) team_url ''team'' plain)
      = Inl (Exit 1)"
    using b fresh_reaches_second
      C3_validation_aborts [where repoName = "''team''" and repoUrl = team_url
        and ev = fresh_remote and options = plain and earlier = "[demo]" and sk = unnamed
        and rest = "[pdf]", THEN conjunct2, THEN conjunct1]
    by simp
  have three: "\<not> completed (uploadToRepository fresh_remote [demo, unnamed, pdf] team_url ''team''
      plain)"
    using c C3_validation_aborts [where repoName = "''team''" and repoUrl = team_url
        and ev = fresh_remote and options = plain and skills = "[demo, unnamed, pdf]",
        THEN conjunct2, THEN conjunct2]
    by blast
  show ?thesis
    using a b fresh_reaches_second one two three by blast
qed

lemma execs_append: "execs (xs @ ys) = execs xs @ execs ys"
  by (induction xs rule: execs.induct) simp_all

lemma existing_reaches_second:
  "reaches_bundle (existing_clone r) plain [demo] team_url ''team''"
  by (simp add: reaches_bundle_def pipeline_defs run_defs string_defs demo_defs more_demo_defs)

lemma existing_trace_to_second:
  "execs (trace_to_bundle (existing_clone r) plain [demo] team_url ''team'') =
     [''git fetch origin'', ''git rev-parse --abbrev-ref HEAD'', ''git pull origin main'',
      ''git ls-files --stage '' @ [DQ] @ ''skills/demo'' @ [DQ],
      ''git rm --cached --force '' @ [DQ] @ ''skills/demo'' @ [DQ],
      ''git status --porcelain'',
      ''git commit -m '' @ [DQ] @ ''Remove submodule before uploading as regular files'' @ [DQ]]"
  by (simp add: trace_to_bundle_def pipeline_defs run_defs string_defs demo_defs more_demo_defs)

lemma existing_rest_completes:
  "completed (rest_of_run (existing_clone r) plain ''team'' (length [demo]) [] ([demo] @ pdf # []))"
  by (simp add: completed_def rest_of_run_def pipeline_defs run_defs string_defs demo_defs
      more_demo_defs)

theorem C8_decline_and_interrupt_witness:
  "reaches_bundle (existing_clone Interrupted) plain [demo] team_url ''team'' \<and>
   isValidSkillName (skill_name pdf) \<and> \<not> opt_yes plain \<and>
   target_exists (per_skill (existing_clone Interrupted) 1) \<and>
   confirm_reply (per_skill (existing_clone Interrupted) 1) = Interrupted \<and>
   snd (uploadToRepository (existing_clone Interrupted) ([demo] @ pdf # []) team_url ''team'' plain)
     = Inl (Exit 0) \<and>
   execs (fst (uploadToRepository (existing_clone Interrupted) ([demo] @ pdf # []) team_url
                 ''team'' plain)) =
     [''git fetch origin'', ''git rev-parse --abbrev-ref HEAD'', ''git pull origin main'',
      ''git ls-files --stage '' @ [DQ] @ ''skills/demo'' @ [DQ],
      ''git rm --cached --force '' @ [DQ] @ ''skills/demo'' @ [DQ],
      ''git status --porcelain'',
      ''git commit -m '' @ [DQ] @ ''Remove submodule before uploading as regular files'' @ [DQ]] \<and>
   confirm_reply (per_skill (existing_clone Declined) 1) = Declined \<and>
   completed (uploadToRepository (existing_clone Declined) ([demo] @ pdf # []) team_url ''team''
                plain) \<and>
   Log ''Skipped: pdf''
     \<in> set (fst (uploadToRepository (existing_clone Declined) ([demo] @ pdf # []) team_url
                    ''team'' plain))"
proof -
  have v: "isValidSkillName (skill_name pdf)" by (simp add: string_defs pdf_def)
  have y: "\<not> opt_yes plain" by (simp add: plain_def)
  have e: "target_exists (per_skill (existing_clone r) (length [demo]))" for r
    by (simp add: existing_clone_def fresh_remote_def new_bundle_def)
  have c: "confirm_reply (per_skill (existing_clone r) (length [demo])) = r" for r
    by (simp add: existing_clone_def fresh_remote_def new_bundle_def)
  have n: "skill_name pdf = ''pdf''" by (simp add: pdf_def)
  have i: "uploadToRepository (existing_clone Interrupted) ([demo] @ pdf # []) team_url ''team''
        plain =
      (trace_to_bundle (existing_clone Interrupted) plain [demo] team_url ''team''
       @ [ExistsSync (path_join (is_win32 (existing_clone Interrupted))
                        (skillsDir_of (existing_clone Interrupted) ''team'') (skill_name pdf)) True,
          Confirm (''Skill '' @ [SQ] @ skill_name pdf @ [SQ]
                   @ '' already exists in repository. Overwrite?''),
          Log ([LF] @ ''Cancelled by user'')],
       Inl (Exit 0))"
    using C8_decline_and_interrupt [OF existing_reaches_second v e y,
        where r1 = Interrupted and rest = "[]", THEN conjunct2] c [of Interrupted]
    by blast
  have d: "uploadToRepository (existing_clone Declined) ([demo] @ pdf # []) team_url ''team''
        plain =
      (trace_to_bundle (existing_clone Declined) plain [demo] team_url ''team''
       @ [ExistsSync (path_join (is_win32 (existing_clone Declined))
                        (skillsDir_of (existing_clone Declined) ''team'') (skill_name pdf)) True,
          Confirm (''Skill '' @ [SQ] @ skill_name pdf @ [SQ]
                   @ '' already exists in repository. Overwrite?''),
          Log (''Skipped: '' @ skill_name pdf)]
       @ fst (rest_of_run (existing_clone Declined) plain ''team'' (length [demo]) []
                ([demo] @ pdf # [])),
       snd (rest_of_run (existing_clone Declined) plain ''team'' (length [demo]) []
              ([demo] @ pdf # [])))"
    using C8_decline_and_interrupt [OF existing_reaches_second v e y,
        where r1 = Declined and rest = "[]", THEN conjunct1] c [of Declined]
    by blast
  have i1: "snd (uploadToRepository (existing_clone Interrupted) ([demo] @ pdf # []) team_url
        ''team'' plain) = Inl (Exit 0)"
    unfolding i by simp
  have i2: "execs (fst (uploadToRepository (existing_clone Interrupted) ([demo] @ pdf # [])
        team_url ''team'' plain)) =
     [''git fetch origin'', ''git rev-parse --abbrev-ref HEAD'', ''git pull origin main'',
      ''git ls-files --stage '' @ [DQ] @ ''skills/demo'' @ [DQ],
      ''git rm --cached --force '' @ [DQ] @ ''skills/demo'' @ [DQ],
      ''git status --porcelain'',
      ''git commit -m '' @ [DQ] @ ''Remove submodule before uploading as regular files'' @ [DQ]]"
    unfolding i by (simp add: execs_append existing_trace_to_second)
  have d1: "completed (uploadToRepository (existing_clone Declined) ([demo] @ pdf # []) team_url
        ''team'' plain)"
    unfolding d using existing_rest_completes [of Declined] by (simp add: completed_def)
  have d2: "Log ''Skipped: pdf'' \<in> set (fst (uploadToRepository (existing_clone Declined)
        ([demo] @ pdf # []) team_url ''team'' plain))"
    unfolding d by (simp add: n)
  have e1: "target_exists (per_skill (existing_clone Interrupted) 1)"
    using e [of Interrupted] by simp
  have c1: "confirm_reply (per_skill (existing_clone Interrupted) 1) = Interrupted"
    using c [of Interrupted] by simp
  have c2: "confirm_reply (per_skill (existing_clone Declined) 1) = Declined"
    using c [of Declined] by simp
  show ?thesis
    using v y e1 c1 c2 existing_reaches_second [of Interrupted] i1 i2 d1 d2 by blast
qed

section \<open>The push\<close>

lemma main_valid: "isValidBranchName ''main''" "isValidBranchName ''master''"
  by (simp_all add: string_defs)

lemma current_branch_valid: "isValidBranchName (current_branch r)"
  by (auto simp: current_branch_def main_valid split: exec_result.splits)

lemma trim_head: "trim s = c # cs \<Longrightarrow> \<not> is_space c"
proof -
  assume t: "trim s = c # cs"
  define d where "d = dropWhile is_space s"
  define u where "u = rev (takeWhile is_space (rev d))"
  have "rev (dropWhile is_space (rev d)) @ rev (takeWhile is_space (rev d))
      = rev (takeWhile is_space (rev d) @ dropWhile is_space (rev d))"
    by (simp only: rev_append)
  also have "\<dots> = rev (rev d)" by (simp only: takeWhile_dropWhile_id)
  finally have "d = trim s @ u" by (simp add: trim_def d_def u_def)
  with t have "d = c # (cs @ u)" by simp
  then have h: "hd d = c" and ne: "d \<noteq> []" by simp_all
  from hd_dropWhile [of is_space s] ne h show ?thesis by (simp add: d_def)
qed

lemma trim_not_tip: "\<not> is_tip (Log (trim s))"
proof (cases "trim s")
  case Nil
  then show ?thesis by simp
next
  case (Cons c cs)
  with trim_head [OF Cons] show ?thesis by (auto simp: is_space_def)
qed

lemma getCurrentBranch_run:
  "snd (getCurrentBranch r) = Inr (current_branch r)"
  "pushes (fst (getCurrentBranch r)) = []"
  "tips (fst (getCurrentBranch r)) = []"
  by (auto simp: getCurrentBranch_def sanitizeBranchName_def current_branch_def run_defs
      pushes_def tips_def split: exec_result.splits)

lemma push_loop_ok:
  assumes "isValidBranchName b" "push_ok (git_push ev j)"
  shows "push_loop ev cur j lastErr (b # rest) = ([Exec (push_command cur b)], Inr (True, lastErr))"
  using assms
  by (auto simp: sanitizeBranchName_def run_defs push_ok_def push_command_def
      split: exec_result.splits)

lemma push_loop_missing:
  assumes "isValidBranchName b" "branch_missing (git_push ev j) b"
  shows "\<exists>e. git_push ev j = ExecFail e \<and>
     push_loop ev cur j lastErr (b # rest) =
       (Exec (push_command cur b) # fst (push_loop ev cur (Suc j) (Some e) rest),
        snd (push_loop ev cur (Suc j) (Some e) rest))"
  using assms
  by (auto simp: sanitizeBranchName_def run_defs branch_missing_def push_command_def
      split: exec_result.splits)

lemma push_loop_other:
  assumes "isValidBranchName b" "\<not> push_ok (git_push ev j)" "\<not> branch_missing (git_push ev j) b"
  shows "\<exists>e. git_push ev j = ExecFail e \<and>
     push_loop ev cur j lastErr (b # rest) = ([Exec (push_command cur b)], Inr (False, Some e))"
  using assms
  by (auto simp: sanitizeBranchName_def run_defs branch_missing_def push_ok_def push_command_def
      split: exec_result.splits)

lemma ok_not_missing: "push_ok r \<Longrightarrow> \<not> branch_missing r b"
  by (auto simp: push_ok_def branch_missing_def split: exec_result.splits)

text \<open>The loop over the three candidates, by the cases of the three answers.\<close>

lemma push_loop_three:
  fixes ev :: env and cur :: string
  assumes v: "isValidBranchName cur"
  defines "cands \<equiv> [cur, ''main'', ''master'']"
  defines "n \<equiv> missing_run ev cands"
  shows "\<exists>lastErr. push_loop ev cur 0 None cands =
           (map Exec (take (Suc n) (map (push_command cur) cands)),
            Inr (n < 3 \<and> push_ok (git_push ev n), lastErr))
         \<and> (\<not> (n < 3 \<and> push_ok (git_push ev n)) \<longrightarrow>
              (\<exists>e. git_push ev (min n 2) = ExecFail e \<and> lastErr = Some e))"
proof -
  note vm = main_valid
  consider (ok0) "push_ok (git_push ev 0)"
    | (other0) "\<not> push_ok (git_push ev 0)" "\<not> branch_missing (git_push ev 0) cur"
    | (miss0) "branch_missing (git_push ev 0) cur" by blast
  then show ?thesis
  proof cases
    case ok0
    then have "n = 0" by (simp add: n_def missing_run_def cands_def ok_not_missing)
    with ok0 push_loop_ok [OF v ok0] show ?thesis by (simp add: cands_def del: push_loop.simps)
  next
    case other0
    then have "n = 0" by (simp add: n_def missing_run_def cands_def)
    with other0 push_loop_other [OF v other0, of cur None "[''main'', ''master'']"]
    show ?thesis by (auto simp: cands_def simp del: push_loop.simps)
  next
    case miss0
    from push_loop_missing [OF v miss0, of cur None "[''main'', ''master'']"]
    obtain e0 where e0: "push_loop ev cur 0 None cands =
       (Exec (push_command cur cur) # fst (push_loop ev cur 1 (Some e0) [''main'', ''master'']),
        snd (push_loop ev cur 1 (Some e0) [''main'', ''master'']))"
      by (auto simp: cands_def simp del: push_loop.simps)
    consider (ok1) "push_ok (git_push ev 1)"
      | (other1) "\<not> push_ok (git_push ev 1)" "\<not> branch_missing (git_push ev 1) ''main''"
      | (miss1) "branch_missing (git_push ev 1) ''main''" by blast
    then show ?thesis
    proof cases
      case ok1
      with miss0 have "n = 1" by (simp add: n_def missing_run_def cands_def ok_not_missing)
      with ok1 push_loop_ok [OF vm(1) ok1, of cur "Some e0" "[''master'']"] e0
      show ?thesis by (simp add: cands_def del: push_loop.simps)
    next
      case other1
      with miss0 have "n = 1" by (simp add: n_def missing_run_def cands_def)
      with other1 push_loop_other [OF vm(1) other1, of cur "Some e0" "[''master'']"] e0
      show ?thesis by (auto simp: cands_def simp del: push_loop.simps)
    next
      case miss1
      from push_loop_missing [OF vm(1) miss1, of cur "Some e0" "[''master'']"]
      obtain e1 where e1: "push_loop ev cur 1 (Some e0) [''main'', ''master''] =
         (Exec (push_command cur ''main'') # fst (push_loop ev cur 2 (Some e1) [''master'']),
          snd (push_loop ev cur 2 (Some e1) [''master'']))"
        by (auto simp: numeral_2_eq_2 simp del: push_loop.simps)
      consider (ok2) "push_ok (git_push ev 2)"
        | (other2) "\<not> push_ok (git_push ev 2)" "\<not> branch_missing (git_push ev 2) ''master''"
        | (miss2) "branch_missing (git_push ev 2) ''master''" by blast
      then show ?thesis
      proof cases
        case ok2
        with miss0 miss1 have "n = 2"
          by (simp add: n_def missing_run_def cands_def ok_not_missing)
        with ok2 push_loop_ok [OF vm(2) ok2, of cur "Some e1" "[]"] e0 e1
        show ?thesis by (simp add: cands_def del: push_loop.simps)
      next
        case other2
        with miss0 miss1 have "n = 2" by (simp add: n_def missing_run_def cands_def)
        with other2 push_loop_other [OF vm(2) other2, of cur "Some e1" "[]"] e0 e1
        show ?thesis by (auto simp: cands_def simp del: push_loop.simps)
      next
        case miss2
        with miss0 miss1 have "n = 3" by (simp add: n_def missing_run_def cands_def)
        moreover from push_loop_missing [OF vm(2) miss2, of cur "Some e1" "[]"]
        obtain e2 where "git_push ev 2 = ExecFail e2"
          and "push_loop ev cur 2 (Some e1) [''master''] =
           ([Exec (push_command cur ''master'')], Inr (False, Some e2))"
          by (auto simp: ret_def simp del: push_loop.simps(2))
        ultimately show ?thesis using e0 e1 by (simp add: cands_def del: push_loop.simps)
      qed
    qed
  qed
qed

lemma pushes_append: "pushes (xs @ ys) = pushes xs @ pushes ys"
  by (simp add: pushes_def execs_append)

lemma tips_append: "tips (xs @ ys) = tips xs @ tips ys"
  by (simp add: tips_def)

lemma execs_map_Exec: "execs (map Exec cs) = cs"
  by (induction cs) simp_all

lemma execs_map_Log: "execs (map (\<lambda>n. Log (f n)) ns) = []"
  by (induction ns) simp_all

lemma push_command_starts: "startsWith (push_command cur b) ''git push''"
  by (simp add: push_command_def)

lemma pushes_commands:
  "pushes (map Exec (take k (map (push_command cur) bs))) = take k (map (push_command cur) bs)"
proof -
  have "\<forall>c \<in> set (take k (map (push_command cur) bs)). startsWith c ''git push''"
    using push_command_starts by (auto dest!: in_set_takeD)
  then show ?thesis by (simp add: pushes_def execs_map_Exec)
qed

lemma tips_commands: "tips (map Exec cs) = []"
  by (induction cs) (simp_all add: tips_def)

lemma success_report_quiet:
  "pushes (push_success_report names) = []" "tips (push_success_report names) = []"
  by (auto simp: push_success_report_def pushes_def tips_def execs_map_Log filter_empty_conv
      split: list.splits)

lemma push_hint_tips:
  "tips (push_hint diag cur) = [] \<or> tips (push_hint diag cur) = [auth_hint]
   \<or> tips (push_hint diag cur) = [upstream_hint] \<or> tips (push_hint diag cur) = [rebase_hint]"
  by (simp add: push_hint_def tips_def auth_hint_def upstream_hint_def rebase_hint_def)

lemma push_hint_execs: "execs (push_hint diag cur) = []"
  by (simp add: push_hint_def)

lemma failure_report_quiet: "pushes (push_failure_report lastErr cur) = []"
  by (auto simp: push_failure_report_def pushes_def execs_append push_hint_execs
      split: option.splits)

lemma failure_report_tips:
  "length (tips (push_failure_report lastErr cur)) \<le> 1 \<and>
   set (tips (push_failure_report lastErr cur)) \<subseteq> {auth_hint, upstream_hint, rebase_hint}"
proof -
  have a: "tips (push_failure_report lastErr cur) = []
      \<or> (\<exists>diag. tips (push_failure_report lastErr cur) = tips (push_hint diag cur))"
    using trim_not_tip
    by (auto simp: push_failure_report_def tips_def split: option.splits)
  then show ?thesis
  proof
    assume "tips (push_failure_report lastErr cur) = []"
    then show ?thesis by simp
  next
    assume "\<exists>diag. tips (push_failure_report lastErr cur) = tips (push_hint diag cur)"
    then obtain diag where "tips (push_failure_report lastErr cur) = tips (push_hint diag cur)"
      by blast
    with push_hint_tips [of diag cur] show ?thesis by auto
  qed
qed

lemma push_hint_exact:
  "tips (push_hint t cur) =
     (if auth_failure t then [auth_hint]
      else if upstream_failure t then [upstream_hint]
      else if rebase_failure t then [rebase_hint] else [])"
  by (simp add: push_hint_def tips_def auth_hint_def upstream_hint_def rebase_hint_def
      auth_failure_def upstream_failure_def rebase_failure_def)

lemma failure_report_exact:
  "tips (push_failure_report (Some e) cur) =
     tips (push_hint (case err_stderr e of Some s \<Rightarrow> trim s | None \<Rightarrow> []) cur)"
proof -
  have n: "tips (push_hint [] cur) = []"
    by (simp add: push_hint_exact auth_failure_def upstream_failure_def rebase_failure_def)
  have t: "trim [] = []" by (simp add: trim_def)
  show ?thesis
    using trim_not_tip n
    by (auto simp: push_failure_report_def tips_append tips_def t split: option.splits)
qed

lemma pushToRemote_run:
  assumes "remote_url ev = ExecOk u"
  defines "cur \<equiv> current_branch (rev_parse_push ev)"
  defines "n \<equiv> missing_run ev [cur, ''main'', ''master'']"
  shows "\<exists>lastErr. pushToRemote ev names =
     ([Spin ''Pushing to remote...'', Exec ''git remote get-url origin'', Log (''Remote: '' @ trim u)]
      @ fst (getCurrentBranch (rev_parse_push ev))
      @ [Log (''Current branch: '' @ cur)]
      @ map Exec (take (Suc n) (map (push_command cur) [cur, ''main'', ''master'']))
      @ (if n < 3 \<and> push_ok (git_push ev n) then push_success_report names
         else push_failure_report lastErr cur),
      if n < 3 \<and> push_ok (git_push ev n) then Inr () else Inl (Exit 1))
     \<and> (\<not> (n < 3 \<and> push_ok (git_push ev n)) \<longrightarrow>
          (\<exists>e. git_push ev (min n 2) = ExecFail e \<and> lastErr = Some e))"
proof -
  from push_loop_three [OF current_branch_valid, of ev "rev_parse_push ev"]
  obtain lastErr where l: "push_loop ev cur 0 None [cur, ''main'', ''master''] =
           (map Exec (take (Suc n) (map (push_command cur) [cur, ''main'', ''master''])),
            Inr (n < 3 \<and> push_ok (git_push ev n), lastErr))"
    and le: "\<not> (n < 3 \<and> push_ok (git_push ev n)) \<longrightarrow>
          (\<exists>e. git_push ev (min n 2) = ExecFail e \<and> lastErr = Some e)"
    unfolding cur_def n_def by blast
  have g: "getCurrentBranch (rev_parse_push ev) = (fst (getCurrentBranch (rev_parse_push ev)), Inr cur)"
    using getCurrentBranch_run(1) [of "rev_parse_push ev"]
    by (cases "getCurrentBranch (rev_parse_push ev)") (simp add: cur_def)
  have "pushToRemote ev names =
     ([Spin ''Pushing to remote...'', Exec ''git remote get-url origin'', Log (''Remote: '' @ trim u)]
      @ fst (getCurrentBranch (rev_parse_push ev))
      @ [Log (''Current branch: '' @ cur)]
      @ map Exec (take (Suc n) (map (push_command cur) [cur, ''main'', ''master'']))
      @ (if n < 3 \<and> push_ok (git_push ev n) then push_success_report names
         else push_failure_report lastErr cur),
      if n < 3 \<and> push_ok (git_push ev n) then Inr () else Inl (Exit 1))"
    unfolding pushToRemote_def DEFAULT_BRANCHES_def
    apply (subst g)
    apply (simp add: assms(1) run_defs l del: push_loop.simps)
    done
  with le show ?thesis by blast
qed

text \<open>
  C5 (amended): with a remote configured, the push step tries the candidate branches
  [current branch, \<open>main\<close>, \<open>master\<close>] in that order, with \<open>-u\<close> for a candidate that is
  the current branch. It goes on to the next candidate exactly while the attempt fails
  with a diagnostic text that mentions \<open>refs/heads/\<close> followed by the branch, or \<open>Could
  not read\<close>, and stops at the first attempt that succeeds or fails otherwise: the push
  commands run are the first \<open>n + 1\<close> of the three, where \<open>n\<close> is the number of leading
  candidates that are missing on the remote. The step succeeds, without any hint, when
  the attempt it stops at succeeds; otherwise the publish ends with the exit status 1 and
  the standard-error text of the last attempt selects the remediation hint: the hint
  about authentication when the text holds \<open>authentication\<close>, \<open>permission\<close> or \<open>denied\<close>;
  else the hint about the upstream when it holds \<open>no upstream\<close> or \<open>no tracking\<close>; else
  the hint about pull and rebase when it holds \<open>rejected\<close> or \<open>non-fast-forward\<close>; and no
  hint when it holds none of these. So a failure is reported with exactly one hint when
  its text matches one of the three kinds, and with none when it matches none.
\<close>

theorem C5_push_fallback:
  assumes "remote_url ev = ExecOk u"
  shows "let cur = current_branch (rev_parse_push ev);
             cands = [cur, ''main'', ''master''];
             n = missing_run ev cands;
             run = pushToRemote ev names;
             t = failure_text ev n
         in pushes (fst run) = take (Suc n) (map (push_command cur) cands) \<and>
            (n < 3 \<and> push_ok (git_push ev n) \<longrightarrow> snd run = Inr () \<and> tips (fst run) = []) \<and>
            (\<not> (n < 3 \<and> push_ok (git_push ev n)) \<longrightarrow>
               snd run = Inl (Exit 1) \<and>
               (auth_failure t \<longrightarrow> tips (fst run) = [auth_hint]) \<and>
               (\<not> auth_failure t \<and> upstream_failure t \<longrightarrow> tips (fst run) = [upstream_hint]) \<and>
               (\<not> auth_failure t \<and> \<not> upstream_failure t \<and> rebase_failure t \<longrightarrow>
                  tips (fst run) = [rebase_hint]) \<and>
               (\<not> auth_failure t \<and> \<not> upstream_failure t \<and> \<not> rebase_failure t \<longrightarrow>
                  tips (fst run) = [])) \<and>
            length (tips (fst run)) \<le> 1 \<and>
            set (tips (fst run)) \<subseteq> {auth_hint, upstream_hint, rebase_hint}"
proof -
  define cur where "cur = current_branch (rev_parse_push ev)"
  define n where "n = missing_run ev [cur, ''main'', ''master'']"
  define ok where "ok \<longleftrightarrow> n < 3 \<and> push_ok (git_push ev n)"
  from pushToRemote_run [OF assms, of names]
  obtain lastErr where r: "pushToRemote ev names =
     ([Spin ''Pushing to remote...'', Exec ''git remote get-url origin'', Log (''Remote: '' @ trim u)]
      @ fst (getCurrentBranch (rev_parse_push ev))
      @ [Log (''Current branch: '' @ cur)]
      @ map Exec (take (Suc n) (map (push_command cur) [cur, ''main'', ''master'']))
      @ (if ok then push_success_report names else push_failure_report lastErr cur),
      if ok then Inr () else Inl (Exit 1))"
    and le: "\<not> ok \<longrightarrow> (\<exists>e. git_push ev (min n 2) = ExecFail e \<and> lastErr = Some e)"
    unfolding cur_def n_def ok_def by blast
  have p0: "pushes [Spin ''Pushing to remote...'', Exec ''git remote get-url origin'',
      Log (''Remote: '' @ trim u)] = []"
    by (simp add: pushes_def)
  have t0: "tips [Spin ''Pushing to remote...'', Exec ''git remote get-url origin'',
      Log (''Remote: '' @ trim u)] = []"
    by (simp add: tips_def)
  have p1: "pushes [Log (''Current branch: '' @ cur)] = []" by (simp add: pushes_def)
  have t1: "tips [Log (''Current branch: '' @ cur)] = []" by (simp add: tips_def)
  have p: "pushes (fst (pushToRemote ev names))
      = take (Suc n) (map (push_command cur) [cur, ''main'', ''master''])"
    unfolding r fst_conv pushes_append p0 p1 getCurrentBranch_run pushes_commands
    by (simp add: success_report_quiet failure_report_quiet)
  have t: "tips (fst (pushToRemote ev names)) =
      (if ok then [] else tips (push_failure_report lastErr cur))"
    unfolding r fst_conv tips_append t0 t1 getCurrentBranch_run tips_commands
    by (simp add: success_report_quiet)
  have tl: "length (tips (fst (pushToRemote ev names))) \<le> 1 \<and>
      set (tips (fst (pushToRemote ev names))) \<subseteq> {auth_hint, upstream_hint, rebase_hint}"
    unfolding t using failure_report_tips [of lastErr cur] by simp
  have s: "snd (pushToRemote ev names) = (if ok then Inr () else Inl (Exit 1))"
    unfolding r by simp
  have x: "tips (fst (pushToRemote ev names)) =
      (if auth_failure (failure_text ev n) then [auth_hint]
       else if upstream_failure (failure_text ev n) then [upstream_hint]
       else if rebase_failure (failure_text ev n) then [rebase_hint] else [])" if "\<not> ok"
  proof -
    from le that obtain e where e: "git_push ev (min n 2) = ExecFail e" "lastErr = Some e"
      by blast
    have "failure_text ev n = (case err_stderr e of Some s \<Rightarrow> trim s | None \<Rightarrow> [])"
      by (simp add: failure_text_def e(1))
    with that show ?thesis
      unfolding t e(2) failure_report_exact by (simp add: push_hint_exact)
  qed
  have y: "ok \<Longrightarrow> tips (fst (pushToRemote ev names)) = []" by (simp add: t)
  show ?thesis
    unfolding Let_def cur_def [symmetric] n_def [symmetric] ok_def [symmetric]
    using p tl s x y by simp
qed

lemmas push_demo_defs = unreachable_def first_push_def behind_remote_def stubborn_git_def

text \<open>
  C5 (as stated, refuted): the claim says that after the sequence has failed the
  diagnostic text selects exactly one remediation hint. When all three attempts fail with
  \<open>fatal: Could not read from remote repository.\<close> the publish ends with the exit status
  1 and no hint at all.
\<close>

theorem C5_exactly_one_hint_counterexample:
  "snd (pushToRemote unreachable [''demo'']) = Inl (Exit 1) \<and>
   pushes (fst (pushToRemote unreachable [''demo''])) =
     [''git push -u origin main'', ''git push -u origin main'', ''git push origin master''] \<and>
   tips (fst (pushToRemote unreachable [''demo''])) = []"
  by (simp add: pipeline_defs run_defs string_defs demo_defs push_demo_defs pushes_def tips_def)

theorem C5_push_fallback_witness:
  "remote_url first_push = ExecOk ''git@example.com:team/skills.git'' \<and>
   current_branch (rev_parse_push first_push) = ''feature/x'' \<and>
   missing_run first_push [''feature/x'', ''main'', ''master''] = 1 \<and>
   push_ok (git_push first_push 1) \<and>
   pushes (fst (pushToRemote first_push [''demo''])) =
     [''git push -u origin feature/x'', ''git push origin main''] \<and>
   snd (pushToRemote first_push [''demo'']) = Inr () \<and>
   tips (fst (pushToRemote first_push [''demo''])) = [] \<and>
   remote_url behind_remote = ExecOk ''git@example.com:team/skills.git'' \<and>
   current_branch (rev_parse_push behind_remote) = ''main'' \<and>
   missing_run behind_remote [''main'', ''main'', ''master''] = 0 \<and>
   \<not> push_ok (git_push behind_remote 0) \<and>
   failure_text behind_remote 0 = ''! [rejected] main -> main (non-fast-forward)'' \<and>
   \<not> auth_failure (failure_text behind_remote 0) \<and>
   \<not> upstream_failure (failure_text behind_remote 0) \<and>
   rebase_failure (failure_text behind_remote 0) \<and>
   pushes (fst (pushToRemote behind_remote [''demo''])) = [''git push -u origin main''] \<and>
   snd (pushToRemote behind_remote [''demo'']) = Inl (Exit 1) \<and>
   tips (fst (pushToRemote behind_remote [''demo''])) = [rebase_hint] \<and>
   missing_run no_permission [''main'', ''main'', ''master''] = 0 \<and>
   \<not> push_ok (git_push no_permission 0) \<and>
   auth_failure (failure_text no_permission 0) \<and>
   snd (pushToRemote no_permission [''demo'']) = Inl (Exit 1) \<and>
   tips (fst (pushToRemote no_permission [''demo''])) = [auth_hint]"
proof -
  have r1: "remote_url first_push = ExecOk ''git@example.com:team/skills.git''"
    by (simp add: first_push_def fresh_remote_def)
  have r2: "remote_url behind_remote = ExecOk ''git@example.com:team/skills.git''"
    by (simp add: behind_remote_def fresh_remote_def)
  have r3: "remote_url no_permission = ExecOk ''git@example.com:team/skills.git''"
    by (simp add: no_permission_def fresh_remote_def)
  have c1: "current_branch (rev_parse_push first_push) = ''feature/x''"
    by (simp add: current_branch_def first_push_def fresh_remote_def string_defs)
  have c2: "current_branch (rev_parse_push behind_remote) = ''main''"
    by (simp add: current_branch_def behind_remote_def fresh_remote_def string_defs)
  have c3: "current_branch (rev_parse_push no_permission) = ''main''"
    by (simp add: current_branch_def no_permission_def fresh_remote_def string_defs)
  have m1: "missing_run first_push [''feature/x'', ''main'', ''master''] = 1"
    by (simp add: missing_run_def branch_missing_def first_push_def fresh_remote_def
        git_failure_def err_text_def or_else_def)
  have m2: "missing_run behind_remote [''main'', ''main'', ''master''] = 0"
    by (simp add: missing_run_def branch_missing_def behind_remote_def fresh_remote_def
        git_failure_def err_text_def or_else_def)
  have m3: "missing_run no_permission [''main'', ''main'', ''master''] = 0"
    by (simp add: missing_run_def branch_missing_def no_permission_def fresh_remote_def
        git_failure_def err_text_def or_else_def)
  have o1: "push_ok (git_push first_push 1)"
    by (simp add: push_ok_def first_push_def fresh_remote_def)
  have o2: "\<not> push_ok (git_push behind_remote 0)"
    by (simp add: push_ok_def behind_remote_def fresh_remote_def)
  have o3: "\<not> push_ok (git_push no_permission 0)"
    by (simp add: push_ok_def no_permission_def fresh_remote_def)
  have f2: "failure_text behind_remote 0 = ''! [rejected] main -> main (non-fast-forward)''"
    by (simp add: failure_text_def behind_remote_def fresh_remote_def git_failure_def trim_def
        is_space_def)
  have f3: "failure_text no_permission 0 = ''remote: Permission to team/skills.git denied to u.''"
    by (simp add: failure_text_def no_permission_def fresh_remote_def git_failure_def trim_def
        is_space_def)
  have k2: "\<not> auth_failure (failure_text behind_remote 0)"
    "\<not> upstream_failure (failure_text behind_remote 0)"
    "rebase_failure (failure_text behind_remote 0)"
    unfolding f2 by (simp_all add: auth_failure_def upstream_failure_def rebase_failure_def)
  have k3: "auth_failure (failure_text no_permission 0)"
    unfolding f3 by (simp add: auth_failure_def)
  have k1: "push_command ''feature/x'' ''feature/x'' = ''git push -u origin feature/x''"
    "push_command ''feature/x'' ''main'' = ''git push origin main''"
    "push_command ''main'' ''main'' = ''git push -u origin main''"
    by (simp_all add: push_command_def)
  note w1 = C5_push_fallback [OF r1, of "[''demo'']", unfolded Let_def c1 m1]
  note w2 = C5_push_fallback [OF r2, of "[''demo'']", unfolded Let_def c2 m2]
  note w3 = C5_push_fallback [OF r3, of "[''demo'']", unfolded Let_def c3 m3]
  from w1 o1 have a: "pushes (fst (pushToRemote first_push [''demo''])) =
     [''git push -u origin feature/x'', ''git push origin main'']"
    and b: "snd (pushToRemote first_push [''demo'']) = Inr ()"
    and b': "tips (fst (pushToRemote first_push [''demo''])) = []"
    by (simp_all add: k1)
  from w2 o2 k2 have c: "pushes (fst (pushToRemote behind_remote [''demo''])) = [''git push -u origin main'']"
    and d: "snd (pushToRemote behind_remote [''demo'']) = Inl (Exit 1)"
    and e: "tips (fst (pushToRemote behind_remote [''demo''])) = [rebase_hint]"
    by (simp_all add: k1)
  from w3 o3 k3 have g: "snd (pushToRemote no_permission [''demo'']) = Inl (Exit 1)"
    and h: "tips (fst (pushToRemote no_permission [''demo''])) = [auth_hint]"
    by simp_all
  show ?thesis using r1 r2 c1 c2 m1 m2 m3 o1 o2 o3 f2 k2 k3 a b b' c d e g h by blast
qed




section \<open>A failed removal ends the publish\<close>










end
